theory Spec2Isabelle
  imports Main
begin

section \<open>Shared values: errors, configuration, the database connection\<close>

text \<open>
  The two message workers (\<^verbatim>\<open>sms.class.ts\<close>, \<^verbatim>\<open>email.class.ts\<close>) are classes whose
  methods return promises. A promise is modelled by its outcome, \<open>Inl\<close> for a rejection
  with its \<^verbatim>\<open>Error\<close> and \<open>Inr\<close> for the resolved value, together with the world the
  method leaves behind. A string is a list of characters, one per code unit.
\<close>

datatype error = Error (message: string)

type_synonym params = "string \<rightharpoonup> string"

datatype status = UNSENT | SENDING | SENT | DELIVERED | ERROR

text \<open>
  The keys the workers read with \<^verbatim>\<open>config.get\<close>. The configuration is global and is
  read at the moment of each call, so every method takes it as an argument.
\<close>

record config =
  defaultCountry :: string
  smsFallbackActivate :: bool
  phonebookContactPrefEnabled :: bool
  showMastheadDomain :: string
  mailFrom :: string
  unsubscribeHmacVersion :: string
  unsubscribeHmacAlgo :: "string \<Rightarrow> string"
  unsubscribeHmacKey :: "string \<Rightarrow> string"
  unsubscribeUrl :: string
  mailOptions :: string
  callbackHashSecret :: string
  emailFallbackActivate :: bool
  mailConfigurationSet :: string

text \<open>
  A row of \<^verbatim>\<open>sms_ops\<close> or \<^verbatim>\<open>email_ops\<close>, with the columns the workers' UPDATE
  statements name. \<^verbatim>\<open>users\<close> and \<^verbatim>\<open>campaigns\<close> carry the columns of the owner lookup.
  Whatever else the stored functions touch is \<open>other_tables\<close>.
\<close>

record op_row =
  op_id :: nat
  op_status :: status
  op_delivered_at :: "nat option"
  op_message_id :: "string option"
  op_error_code :: "string option"
  op_updated_at :: "nat option"

record user_row =
  user_id :: nat
  user_email :: string

record campaign_row =
  campaign_id :: nat
  campaign_user_id :: nat

record 'o database =
  sms_ops :: "op_row list"
  email_ops :: "op_row list"
  users :: "user_row list"
  campaigns :: "campaign_row list"
  other_tables :: 'o

record TwilioCredentials =
  accountSid :: string
  apiKey :: string
  apiSecret :: string
  messagingServiceSid :: string

datatype sms_client = TwilioClient TwilioCredentials | SnsSmsClient

text \<open>One call of \<^verbatim>\<open>smsClient.send(id, recipient, message, campaignId)\<close>.\<close>

record sms_send =
  send_via :: sms_client
  send_id :: nat
  send_recipient :: string
  send_message :: string
  send_campaignId :: "nat option"

text \<open>The argument of \<^verbatim>\<open>mailService.sendMail\<close> as \<^verbatim>\<open>Email.sendMessage\<close> builds it.\<close>

record mail =
  mail_from :: string
  mail_recipients :: "string list"
  mail_subject :: string
  mail_body :: string
  mail_messageId :: string
  mail_unsubLink :: string
  mail_bcc :: "string list option"
  mail_replyTo :: "string option"

datatype log_entry =
    LogInfo string string nat string
  | LogError string error string

text \<open>
  The world outside the worker objects: the database behind the Sequelize connection,
  the database clock read by \<^verbatim>\<open>clock_timestamp()\<close>, the calls made so far to the SMS
  gateway and to the mail service, and the log. Whether the connection carries out a
  statement or rejects it is not decided by the program; \<open>faults\<close> lists, for the
  statements to come, the error the connection answers with (\<open>None\<close>: the statement is
  carried out; past the end of the list every statement is carried out). \<open>no_value\<close> is
  the error with which \<^verbatim>\<open>connection.query\<close> itself throws when a named replacement of
  the statement has the value \<^verbatim>\<open>undefined\<close>; its wording is the library's.
\<close>

record 'o world =
  db :: "'o database"
  faults :: "error option list"
  no_value :: "string \<Rightarrow> error"
  clock :: nat
  sms_sent :: "sms_send list"
  mail_sent :: "mail list"
  logs :: "log_entry list"

text \<open>
  \<^verbatim>\<open>connection.query(sql, options)\<close>: the connection either rejects, leaving the tables
  alone, or runs the statement. A statement that calls a stored function may itself
  raise.
\<close>

definition query ::
  "('o world \<Rightarrow> error + 'r \<times> 'o world) \<Rightarrow> 'o world \<Rightarrow> (error + 'r) \<times> 'o world" where
  "query stmt w =
     (case faults w of
        Some e # fs \<Rightarrow> (Inl e, w\<lparr>faults := fs\<rparr>)
      | _ \<Rightarrow>
          (let w1 = w\<lparr>faults := tl (faults w)\<rparr> in
           case stmt w1 of
             Inl e \<Rightarrow> (Inl e, w1)
           | Inr (r, w2) \<Rightarrow> (Inr r, w2)))"

text \<open>The connection carries out the next statement it is given.\<close>

definition accepts :: "'o world \<Rightarrow> bool" where
  "accepts w = (case faults w of Some e # fs \<Rightarrow> False | _ \<Rightarrow> True)"

text \<open>
  What a JavaScript expression of type \<^verbatim>\<open>T | null | undefined\<close> yields. An absent
  property of an object reads as \<^verbatim>\<open>undefined\<close>.
\<close>

datatype 'a js = Undefined | Null | Value 'a

definition js_of_option :: "'a option \<Rightarrow> 'a js" where
  "js_of_option x = (case x of None \<Rightarrow> Undefined | Some v \<Rightarrow> Value v)"

text \<open>
  The SQL value a replacement is bound as: \<^verbatim>\<open>null\<close> as NULL, any other value as
  itself. (\<^verbatim>\<open>undefined\<close> is never bound; see \<open>bind_replacement\<close>.)
\<close>

definition sql_value :: "'a js \<Rightarrow> 'a option" where
  "sql_value v = (case v of Value x \<Rightarrow> Some x | Null \<Rightarrow> None | Undefined \<Rightarrow> None)"

text \<open>
  A named replacement of \<^verbatim>\<open>connection.query\<close>: \<^verbatim>\<open>undefined\<close> is refused by the call
  itself, before the connection is asked anything; anything else is bound.
\<close>

definition bind_replacement :: "'o world \<Rightarrow> string \<Rightarrow> 'a js \<Rightarrow> error + 'a option" where
  "bind_replacement w name v =
     (case v of
        Undefined \<Rightarrow> Inl (no_value w name)
      | Null \<Rightarrow> Inr (sql_value v)
      | Value x \<Rightarrow> Inr (sql_value v))"

text \<open>\<^verbatim>\<open>String.prototype.substring(start, end)\<close> on natural indices.\<close>

definition substring :: "nat \<Rightarrow> nat \<Rightarrow> string \<Rightarrow> string" where
  "substring a b s = take (max a b - min a b) (drop (min a b) s)"

text \<open>
  The per-message UPDATE statements, with their replacements bound (a message id is a
  text or NULL). \<^verbatim>\<open>WHERE id=:id\<close> selects the rows by id; \<^verbatim>\<open>clock_timestamp()\<close>
  reads the database clock, which moves on after the statement.
\<close>

definition row_sending_sms :: "nat \<Rightarrow> string option \<Rightarrow> op_row \<Rightarrow> op_row" where
  "row_sending_sms now messageId r =
     r\<lparr>op_status := SENDING, op_delivered_at := Some now,
       op_message_id := messageId, op_updated_at := Some now\<rparr>"

definition row_sending_email :: "nat \<Rightarrow> op_row \<Rightarrow> op_row" where
  "row_sending_email now r =
     r\<lparr>op_status := SENDING, op_delivered_at := Some now, op_updated_at := Some now\<rparr>"

definition row_error :: "nat \<Rightarrow> string \<Rightarrow> op_row \<Rightarrow> op_row" where
  "row_error now err r =
     r\<lparr>op_status := ERROR, op_delivered_at := Some now,
       op_error_code := Some err, op_updated_at := Some now\<rparr>"

definition update_where_id :: "nat \<Rightarrow> (op_row \<Rightarrow> op_row) \<Rightarrow> op_row list \<Rightarrow> op_row list" where
  "update_where_id i f rows = map (\<lambda>r. if op_id r = i then f r else r) rows"

definition update_sms_ops_sending ::
  "nat \<Rightarrow> string option \<Rightarrow> 'o world \<Rightarrow> error + unit \<times> 'o world" where
  "update_sms_ops_sending i messageId w =
     Inr ((), w\<lparr>db := (db w)\<lparr>sms_ops :=
                  update_where_id i (row_sending_sms (clock w) messageId) (sms_ops (db w))\<rparr>,
               clock := Suc (clock w)\<rparr>)"

definition update_sms_ops_error ::
  "nat \<Rightarrow> string \<Rightarrow> 'o world \<Rightarrow> error + unit \<times> 'o world" where
  "update_sms_ops_error i err w =
     Inr ((), w\<lparr>db := (db w)\<lparr>sms_ops :=
                  update_where_id i (row_error (clock w) err) (sms_ops (db w))\<rparr>,
               clock := Suc (clock w)\<rparr>)"

definition update_email_ops_sending :: "nat \<Rightarrow> 'o world \<Rightarrow> error + unit \<times> 'o world" where
  "update_email_ops_sending i w =
     Inr ((), w\<lparr>db := (db w)\<lparr>email_ops :=
                  update_where_id i (row_sending_email (clock w)) (email_ops (db w))\<rparr>,
               clock := Suc (clock w)\<rparr>)"

definition update_email_ops_error ::
  "nat \<Rightarrow> string \<Rightarrow> 'o world \<Rightarrow> error + unit \<times> 'o world" where
  "update_email_ops_error i err w =
     Inr ((), w\<lparr>db := (db w)\<lparr>email_ops :=
                  update_where_id i (row_error (clock w) err) (email_ops (db w))\<rparr>,
               clock := Suc (clock w)\<rparr>)"

section \<open>The SMS worker\<close>

text \<open>
  What \<^verbatim>\<open>sms.class.ts\<close> imports or calls and does not define: the phone number
  service, the templating client, the credential service, the gateway clients'
  \<^verbatim>\<open>send\<close>, the contact-preference helper and the stored functions of the database.
  Each is a parameter; a call that can throw or reject returns a sum. A gateway client
  resolves with the message id it assigned, with \<^verbatim>\<open>null\<close> or with \<^verbatim>\<open>undefined\<close>.
\<close>

record sms_message =
  sms_id :: nat
  sms_recipient :: string
  sms_params :: params
  sms_body :: string
  sms_campaignId :: "nat option"

record 'o sms_env =
  normalisePhoneNumber :: "string \<Rightarrow> string \<Rightarrow> error + string"
  template_sms :: "string \<Rightarrow> params \<Rightarrow> error + string"
  getTwilioCredentials :: "string \<Rightarrow> error + TwilioCredentials"
  client_send :: "sms_send \<Rightarrow> error + string js"
  enqueue_messages_sms :: "nat \<Rightarrow> 'o database \<Rightarrow> error + 'o database"
  update_stats_sms :: "nat \<Rightarrow> 'o database \<Rightarrow> error + 'o database"
  get_messages_to_send_sms ::
    "nat \<Rightarrow> nat \<Rightarrow> 'o database \<Rightarrow> error + sms_message list \<times> 'o database"
  getMessagesWithContactPrefLinks ::
    "sms_message list \<Rightarrow> nat option \<Rightarrow> string \<Rightarrow> error + sms_message list"

text \<open>The fields of the class; the connection is the world.\<close>

record SMS =
  sms_workerId :: string
  smsClient :: "sms_client option"

definition sms_constructor :: "string \<Rightarrow> SMS" where
  "sms_constructor wid = \<lparr>sms_workerId = wid, smsClient = None\<rparr>"

text \<open>
  \<^verbatim>\<open>setSendingService\<close>: the credentials are awaited first; the assignment to
  \<^verbatim>\<open>this.smsClient\<close> runs only when they arrive.
\<close>

definition sms_setSendingService ::
  "config \<Rightarrow> 'o sms_env \<Rightarrow> string \<Rightarrow> SMS \<Rightarrow> (error + unit) \<times> SMS" where
  "sms_setSendingService cfg env credentialName this =
     (case getTwilioCredentials env credentialName of
        Inl e \<Rightarrow> (Inl e, this)
      | Inr credentials \<Rightarrow>
          (Inr (), this\<lparr>smsClient :=
             Some (if smsFallbackActivate cfg then SnsSmsClient
                   else TwilioClient credentials)\<rparr>))"

definition sms_destroySendingService :: "SMS \<Rightarrow> SMS" where
  "sms_destroySendingService this = this\<lparr>smsClient := None\<rparr>"

text \<open>
  \<^verbatim>\<open>sendMessage\<close>, stage by stage of its promise chain. First the executor of
  \<^verbatim>\<open>new Promise\<close>: whatever the phone number service throws is replaced by one fixed
  error.
\<close>

definition sms_normalise :: "config \<Rightarrow> 'o sms_env \<Rightarrow> sms_message \<Rightarrow> error + string" where
  "sms_normalise cfg env m =
     (case normalisePhoneNumber env (sms_recipient m) (defaultCountry cfg) of
        Inl err \<Rightarrow> Inl (Error ''Recipient is incorrectly formatted'')
      | Inr normalisedRecipient \<Rightarrow> Inr normalisedRecipient)"

text \<open>
  \<^verbatim>\<open>this.smsClient?.send(...)\<close>: with no client the optional call yields
  \<^verbatim>\<open>undefined\<close> and its arguments are not evaluated; with a client the body is
  rendered, then the client is called.
\<close>

definition sms_transport ::
  "'o sms_env \<Rightarrow> SMS \<Rightarrow> sms_message \<Rightarrow> string \<Rightarrow> 'o world \<Rightarrow> (error + string js) \<times> 'o world" where
  "sms_transport env this m normalisedRecipient w =
     (case smsClient this of
        None \<Rightarrow> (Inr Undefined, w)
      | Some c \<Rightarrow>
          (case template_sms env (sms_body m) (sms_params m) of
             Inl e \<Rightarrow> (Inl e, w)
           | Inr text \<Rightarrow>
               (let call = \<lparr>send_via = c, send_id = sms_id m,
                            send_recipient = normalisedRecipient, send_message = text,
                            send_campaignId = sms_campaignId m\<rparr>
                in (client_send env call, w\<lparr>sms_sent := sms_sent w @ [call]\<rparr>))))"

text \<open>
  The rest of the chain. The second \<^verbatim>\<open>then\<close> hands what the first resolved with to
  the UPDATE as its \<^verbatim>\<open>:messageId\<close>; the \<^verbatim>\<open>catch\<close> receives whatever was thrown or
  rejected before it; the last \<^verbatim>\<open>then\<close> logs.
\<close>

definition sms_sendMessage ::
  "config \<Rightarrow> 'o sms_env \<Rightarrow> SMS \<Rightarrow> sms_message \<Rightarrow> 'o world \<Rightarrow> (error + unit) \<times> 'o world" where
  "sms_sendMessage cfg env this m w =
     (let (sent, w1) =
            (case sms_normalise cfg env m of
               Inl e \<Rightarrow> (Inl e, w)
             | Inr normalisedRecipient \<Rightarrow> sms_transport env this m normalisedRecipient w);
          (updated, w2) =
            (case sent of
               Inl e \<Rightarrow> (Inl e, w1)
             | Inr messageId \<Rightarrow>
                 (case bind_replacement w1 '':messageId'' messageId of
                    Inl e \<Rightarrow> (Inl e, w1)
                  | Inr bound \<Rightarrow> query (update_sms_ops_sending (sms_id m) bound) w1));
          (caught, w3) =
            (case updated of
               Inl e \<Rightarrow> query (update_sms_ops_error (sms_id m) (substring 0 255 (message e))) w2
             | Inr u \<Rightarrow> (Inr u, w2))
      in case caught of
           Inl e \<Rightarrow> (Inl e, w3)
         | Inr u \<Rightarrow>
             (Inr (), w3\<lparr>logs := logs w3 @
                [LogInfo ''Sent sms message'' (sms_workerId this) (sms_id m) ''sendMessage'']\<rparr>))"

text \<open>
  \<^verbatim>\<open>connection.transaction(callback)\<close>, a managed transaction: it begins, runs the
  callback, and commits when the callback resolves; when the callback rejects, or the
  commit is rejected, the tables are rolled back to what they were and the promise
  rejects with that error. Both statements of \<^verbatim>\<open>enqueueMessages\<close> are given the
  transaction handle, so they run inside it.
\<close>

definition transaction ::
  "('o world \<Rightarrow> (error + 'a) \<times> 'o world) \<Rightarrow> 'o world \<Rightarrow> (error + 'a) \<times> 'o world" where
  "transaction callback w =
     (case query (\<lambda>w0. Inr ((), w0)) w of
        (Inl e, w0) \<Rightarrow> (Inl e, w0)
      | (Inr u, w0) \<Rightarrow>
          (case callback w0 of
             (Inl e, w1) \<Rightarrow> (Inl e, w1\<lparr>db := db w\<rparr>)
           | (Inr a, w1) \<Rightarrow>
               (case query (\<lambda>w2. Inr ((), w2)) w1 of
                  (Inl e, w2) \<Rightarrow> (Inl e, w2\<lparr>db := db w\<rparr>)
                | (Inr u, w2) \<Rightarrow> (Inr a, w2))))"

text \<open>A \<^verbatim>\<open>SELECT f(...)\<close> of a stored function that returns nothing of interest.\<close>

definition select_stored ::
  "('o database \<Rightarrow> error + 'o database) \<Rightarrow> 'o world \<Rightarrow> error + unit \<times> 'o world" where
  "select_stored f w =
     (case f (db w) of Inl e \<Rightarrow> Inl e | Inr d \<Rightarrow> Inr ((), w\<lparr>db := d\<rparr>))"

definition sms_enqueueMessages ::
  "'o sms_env \<Rightarrow> SMS \<Rightarrow> nat \<Rightarrow> nat \<Rightarrow> 'o world \<Rightarrow> (error + unit) \<times> 'o world" where
  "sms_enqueueMessages env this jobId campaignId w =
     (case transaction
             (\<lambda>w0. case query (select_stored (enqueue_messages_sms env jobId)) w0 of
                      (Inl e, w1) \<Rightarrow> (Inl e, w1)
                    | (Inr u, w1) \<Rightarrow> query (select_stored (update_stats_sms env campaignId)) w1)
             w of
        (Inl e, w') \<Rightarrow> (Inl e, w')
      | (Inr u, w') \<Rightarrow>
          (Inr (), w'\<lparr>logs := logs w' @
             [LogInfo ''Enqueued sms messages'' (sms_workerId this) jobId ''enqueueMessages'']\<rparr>))"

text \<open>
  The owner lookup of \<^verbatim>\<open>getMessages\<close>:
  \<^verbatim>\<open>select u.email as email from users u where u.id =
    (select c.user_id from campaigns c where c.id = :campaignId)\<close>.
  A scalar subquery with no row is NULL, which equals no id, as does a campaign id bound
  as NULL; with more than one row the database raises.
\<close>

definition select_owner_email ::
  "nat option \<Rightarrow> 'o world \<Rightarrow> error + string list \<times> 'o world" where
  "select_owner_email campaignId w =
     (case campaignId of
        None \<Rightarrow> Inr ([], w)
      | Some cid \<Rightarrow>
          (case filter (\<lambda>c. campaign_id c = cid) (campaigns (db w)) of
             [] \<Rightarrow> Inr ([], w)
           | [c] \<Rightarrow>
               Inr (map user_email
                      (filter (\<lambda>u. user_id u = campaign_user_id c) (users (db w))), w)
           | c # c' # cs \<Rightarrow>
               Inl (Error ''more than one row returned by a subquery used as an expression'')))"

text \<open>
  \<^verbatim>\<open>SELECT get_messages_to_send_sms(:job_id, :rate)\<close>, with the field of that name
  already taken out of every row, as \<^verbatim>\<open>map(dbResults, ...)\<close> does.
\<close>

definition select_get_messages_to_send_sms ::
  "'o sms_env \<Rightarrow> nat \<Rightarrow> nat \<Rightarrow> 'o world \<Rightarrow> error + sms_message list \<times> 'o world" where
  "select_get_messages_to_send_sms env jobId rate w =
     (case get_messages_to_send_sms env jobId rate (db w) of
        Inl e \<Rightarrow> Inl e
      | Inr (result, d) \<Rightarrow> Inr (result, w\<lparr>db := d\<rparr>))"

text \<open>
  The body of the \<^verbatim>\<open>try\<close> block of \<^verbatim>\<open>SMS.getMessages\<close>, entered with a non-empty
  result; \<open>Inl\<close> is what the \<^verbatim>\<open>catch\<close> receives.
\<close>

definition sms_contactPref ::
  "'o sms_env \<Rightarrow> sms_message list \<Rightarrow> 'o world \<Rightarrow> (error + sms_message list) \<times> 'o world" where
  "sms_contactPref env result w =
     (case result of
        [] \<Rightarrow> (Inl (Error ''Cannot read properties of undefined (reading 'campaignId')''), w)
      | first # rest \<Rightarrow>
          (case bind_replacement w '':campaignId'' (js_of_option (sms_campaignId first)) of
             Inl e \<Rightarrow> (Inl e, w)
           | Inr cid \<Rightarrow>
          (case query (select_owner_email cid) w of
             (Inl e, w1) \<Rightarrow> (Inl e, w1)
           | (Inr [], w1) \<Rightarrow>
               (Inl (Error ''Unable to fetch user email from campaign for phonebook contact preference api''), w1)
           | (Inr (userEmail # others), w1) \<Rightarrow>
               (getMessagesWithContactPrefLinks env result (sms_campaignId first) userEmail, w1))))"

definition sms_getMessages ::
  "config \<Rightarrow> 'o sms_env \<Rightarrow> SMS \<Rightarrow> nat \<Rightarrow> nat \<Rightarrow> 'o world \<Rightarrow> (error + sms_message list) \<times> 'o world" where
  "sms_getMessages cfg env this jobId rate w =
     (case query (select_get_messages_to_send_sms env jobId rate) w of
        (Inl e, w1) \<Rightarrow> (Inl e, w1)
      | (Inr result, w1) \<Rightarrow>
          (if phonebookContactPrefEnabled cfg \<and> length result > 0 then
             (case sms_contactPref env result w1 of
                (Inr enriched, w2) \<Rightarrow> (Inr enriched, w2)
              | (Inl err, w2) \<Rightarrow>
                  (Inr result, w2\<lparr>logs := logs w2 @
                     [LogError ''Unable to fetch contact preferences'' err (sms_workerId this)]\<rparr>))
           else (Inr result, w1)))"

section \<open>The email worker\<close>

text \<open>
  A message as \<^verbatim>\<open>Email.sendMessage\<close> destructures it, with the \<^verbatim>\<open>senderEmail\<close> that
  \<^verbatim>\<open>getMessages\<close> reads; a row of the fetch holds one under \<^verbatim>\<open>message\<close>.
\<close>

record Message =
  msg_id :: nat
  recipient :: string
  msg_params :: params
  body :: string
  subject :: "string option"
  replyTo :: "string option"
  msg_from :: "string option"
  msg_campaignId :: "nat option"
  agencyName :: "string option"
  agencyLogoURI :: "string option"
  showMasthead :: "bool option"
  contactPrefLink :: "string option"
  senderEmail :: string

record EmailResultRow =
  row_message :: Message

record URL =
  href :: string
  searchParams :: "(string \<times> string) list"

text \<open>The argument of \<^verbatim>\<open>ThemeClient.generateThemedHTMLEmail\<close>.\<close>

record theme_input =
  theme_body :: string
  theme_unsubLink :: string
  theme_agencyName :: "string option"
  theme_agencyLogoURI :: "string option"
  theme_showMasthead :: "bool option"
  theme_contactPrefLink :: "string option"

text \<open>The mail client the constructor builds from the configuration.\<close>

record MailClient =
  client_options :: string
  client_hashSecret :: string
  client_defaultFrom :: "string option"
  client_configurationSet :: string

text \<open>
  What \<^verbatim>\<open>email.class.ts\<close> imports: the validator, the templating client, node's
  \<^verbatim>\<open>crypto\<close> and \<^verbatim>\<open>URL\<close>, the theme client, the mail client's \<^verbatim>\<open>sendMail\<close>, the
  contact-preference helper and the stored functions.
\<close>

record 'o email_env =
  isEmail :: "string \<Rightarrow> bool"
  template_email :: "string option \<Rightarrow> params \<Rightarrow> error + string"
  createHmac_hex :: "string \<Rightarrow> string \<Rightarrow> string \<Rightarrow> error + string"
  new_URL :: "string \<Rightarrow> string \<Rightarrow> error + string"
  url_toString :: "URL \<Rightarrow> string"
  generateThemedHTMLEmail :: "theme_input \<Rightarrow> error + string"
  sendMail :: "MailClient \<Rightarrow> mail \<Rightarrow> error + string option"
  enqueue_messages_email :: "nat \<Rightarrow> 'o database \<Rightarrow> error + 'o database"
  update_stats_email_with_read :: "nat \<Rightarrow> 'o database \<Rightarrow> error + 'o database"
  get_messages_to_send_email_with_agency ::
    "nat \<Rightarrow> nat \<Rightarrow> 'o database \<Rightarrow> error + EmailResultRow list \<times> 'o database"
  getContactPrefLinksForEmail ::
    "EmailResultRow list \<Rightarrow> nat option \<Rightarrow> string \<Rightarrow> error + Message list"

record Email =
  email_workerId :: string
  mailService :: MailClient

definition email_constructor :: "config \<Rightarrow> string \<Rightarrow> Email" where
  "email_constructor cfg wid =
     \<lparr>email_workerId = wid,
      mailService =
        \<lparr>client_options = mailOptions cfg,
         client_hashSecret = callbackHashSecret cfg,
         client_defaultFrom = (if emailFallbackActivate cfg then Some (mailFrom cfg) else None),
         client_configurationSet = mailConfigurationSet cfg\<rparr>\<rparr>"

definition email_enqueueMessages ::
  "'o email_env \<Rightarrow> Email \<Rightarrow> nat \<Rightarrow> nat \<Rightarrow> 'o world \<Rightarrow> (error + unit) \<times> 'o world" where
  "email_enqueueMessages env this jobId campaignId w =
     (case transaction
             (\<lambda>w0. case query (select_stored (enqueue_messages_email env jobId)) w0 of
                      (Inl e, w1) \<Rightarrow> (Inl e, w1)
                    | (Inr u, w1) \<Rightarrow>
                        query (select_stored (update_stats_email_with_read env campaignId)) w1)
             w of
        (Inl e, w') \<Rightarrow> (Inl e, w')
      | (Inr u, w') \<Rightarrow>
          (Inr (), w'\<lparr>logs := logs w' @
             [LogInfo ''Enqueued email messages'' (email_workerId this) jobId ''enqueueMessages'']\<rparr>))"

text \<open>\<^verbatim>\<open>String.prototype.endsWith\<close>.\<close>

definition endsWith :: "string \<Rightarrow> string \<Rightarrow> bool" where
  "endsWith s suffix =
     (length suffix \<le> length s \<and> drop (length s - length suffix) s = suffix)"

text \<open>The function mapped over the rows at the end of \<^verbatim>\<open>getMessages\<close>.\<close>

definition with_showMasthead :: "string \<Rightarrow> EmailResultRow \<Rightarrow> Message" where
  "with_showMasthead showMastheadDomain_value row =
     (row_message row)\<lparr>showMasthead :=
        Some (endsWith (senderEmail (row_message row)) showMastheadDomain_value)\<rparr>"

definition select_get_messages_to_send_email ::
  "'o email_env \<Rightarrow> nat \<Rightarrow> nat \<Rightarrow> 'o world \<Rightarrow> error + EmailResultRow list \<times> 'o world" where
  "select_get_messages_to_send_email env jobId rate w =
     (case get_messages_to_send_email_with_agency env jobId rate (db w) of
        Inl e \<Rightarrow> Inl e
      | Inr (result, d) \<Rightarrow> Inr (result, w\<lparr>db := d\<rparr>))"

text \<open>The body of the \<^verbatim>\<open>try\<close> block of \<^verbatim>\<open>Email.getMessages\<close>.\<close>

definition email_contactPref ::
  "'o email_env \<Rightarrow> EmailResultRow list \<Rightarrow> 'o world \<Rightarrow> (error + Message list) \<times> 'o world" where
  "email_contactPref env result w =
     (case result of
        [] \<Rightarrow> (Inl (Error ''Cannot read properties of undefined (reading 'message')''), w)
      | first # rest \<Rightarrow>
          (case bind_replacement w '':campaignId''
                  (js_of_option (msg_campaignId (row_message first))) of
             Inl e \<Rightarrow> (Inl e, w)
           | Inr cid \<Rightarrow>
          (case query (select_owner_email cid) w of
             (Inl e, w1) \<Rightarrow> (Inl e, w1)
           | (Inr [], w1) \<Rightarrow>
               (Inl (Error ''Unable to fetch user email from campaign for phonebook contact preference api''), w1)
           | (Inr (userEmail # others), w1) \<Rightarrow>
               (getContactPrefLinksForEmail env result (msg_campaignId (row_message first)) userEmail,
                w1))))"

definition email_getMessages ::
  "config \<Rightarrow> 'o email_env \<Rightarrow> Email \<Rightarrow> nat \<Rightarrow> nat \<Rightarrow> 'o world \<Rightarrow> (error + Message list) \<times> 'o world" where
  "email_getMessages cfg env this jobId rate w =
     (case query (select_get_messages_to_send_email env jobId rate) w of
        (Inl e, w1) \<Rightarrow> (Inl e, w1)
      | (Inr result, w1) \<Rightarrow>
          (if phonebookContactPrefEnabled cfg \<and> length result > 0 then
             (case email_contactPref env result w1 of
                (Inr enriched, w2) \<Rightarrow> (Inr enriched, w2)
              | (Inl err, w2) \<Rightarrow>
                  (Inr (map (with_showMasthead (showMastheadDomain cfg)) result),
                   w2\<lparr>logs := logs w2 @
                     [LogError ''Unable to fetch contact preferences'' err (email_workerId this)]\<rparr>))
           else (Inr (map (with_showMasthead (showMastheadDomain cfg)) result), w1)))"

text \<open>Decimal digits of a number, as \<^verbatim>\<open>String(n)\<close> and \<^verbatim>\<open>n.toString()\<close> give them.\<close>

fun toString_nat :: "nat \<Rightarrow> string" where
  "toString_nat n =
     (if n < 10 then [char_of (48 + n)]
      else toString_nat (n div 10) @ [char_of (48 + n mod 10)])"

declare toString_nat.simps [simp del]

text \<open>A value inside a template literal: \<^verbatim>\<open>undefined\<close> prints as that word.\<close>

definition interpolate_number :: "nat option \<Rightarrow> string" where
  "interpolate_number n = (case n of None \<Rightarrow> ''undefined'' | Some k \<Rightarrow> toString_nat k)"

definition calculateHash ::
  "config \<Rightarrow> 'o email_env \<Rightarrow> nat option \<Rightarrow> string \<Rightarrow> error + string" where
  "calculateHash cfg env campaignId_value recipient_value =
     (let version = unsubscribeHmacVersion cfg in
      createHmac_hex env (unsubscribeHmacAlgo cfg version) (unsubscribeHmacKey cfg version)
        (interpolate_number campaignId_value @ ''.'' @ recipient_value))"

text \<open>
  \<^verbatim>\<open>generateUnsubLink\<close>. The campaign id is asserted, not checked, by the caller:
  \<^verbatim>\<open>campaignId.toString()\<close> on \<^verbatim>\<open>undefined\<close> throws.
\<close>

definition generateUnsubLink ::
  "config \<Rightarrow> 'o email_env \<Rightarrow> nat option \<Rightarrow> string \<Rightarrow> error + URL" where
  "generateUnsubLink cfg env campaignId_value recipient_value =
     (let version = unsubscribeHmacVersion cfg in
      case calculateHash cfg env campaignId_value recipient_value of
        Inl e \<Rightarrow> Inl e
      | Inr hmac \<Rightarrow>
          (case new_URL env (''/unsubscribe/'' @ version) (unsubscribeUrl cfg) of
             Inl e \<Rightarrow> Inl e
           | Inr link \<Rightarrow>
               (case campaignId_value of
                  None \<Rightarrow> Inl (Error ''Cannot read properties of undefined (reading 'toString')'')
                | Some c \<Rightarrow>
                    Inr \<lparr>href = link,
                         searchParams = [(''c'', toString_nat c), (''r'', recipient_value),
                                         (''h'', hmac)]\<rparr>)))"

text \<open>\<^verbatim>\<open>String.prototype.split\<close> on a one-character separator.\<close>

fun split :: "char \<Rightarrow> string \<Rightarrow> string list" where
  "split sep [] = [[]]"
| "split sep (c # cs) =
     (if c = sep then [] # split sep cs
      else (case split sep cs of
              [] \<Rightarrow> [[c]]
            | piece # pieces \<Rightarrow> (c # piece) # pieces))"

text \<open>
  The \<^verbatim>\<open>try\<close> block of \<^verbatim>\<open>sendMessage\<close> up to the call of the mail service: the
  recipient check and the rendering, which build the mail or throw.
\<close>

definition email_render :: "config \<Rightarrow> 'o email_env \<Rightarrow> Message \<Rightarrow> error + mail" where
  "email_render cfg env m =
     (if \<not> isEmail env (recipient m) then Inl (Error ''Recipient is incorrectly formatted'')
      else
        (case template_email env (subject m) (msg_params m) of
           Inl e \<Rightarrow> Inl e
         | Inr hydratedSubject \<Rightarrow>
        (case template_email env (Some (body m)) (msg_params m) of
           Inl e \<Rightarrow> Inl e
         | Inr hydratedBody \<Rightarrow>
        (case generateUnsubLink cfg env (msg_campaignId m) (recipient m) of
           Inl e \<Rightarrow> Inl e
         | Inr link \<Rightarrow>
        (let unsubLink = url_toString env link in
         case generateThemedHTMLEmail env
                \<lparr>theme_body = hydratedBody, theme_unsubLink = unsubLink,
                 theme_agencyName = agencyName m, theme_agencyLogoURI = agencyLogoURI m,
                 theme_showMasthead = showMasthead m,
                 theme_contactPrefLink = contactPrefLink m\<rparr> of
           Inl e \<Rightarrow> Inl e
         | Inr themedHTMLEmail \<Rightarrow>
             Inr \<lparr>mail_from = (case msg_from m of
                                 None \<Rightarrow> mailFrom cfg
                               | Some f \<Rightarrow> if f = [] then mailFrom cfg else f),
                  mail_recipients = [recipient m],
                  mail_subject = hydratedSubject,
                  mail_body = themedHTMLEmail,
                  mail_messageId = toString_nat (msg_id m),
                  mail_unsubLink = unsubLink,
                  mail_bcc = (case msg_params m ''bcc'' of
                                None \<Rightarrow> None
                              | Some b \<Rightarrow> if b = [] then None else Some (split CHR '','' b)),
                  mail_replyTo = (case replyTo m of
                                    None \<Rightarrow> None
                                  | Some r \<Rightarrow> if r = [] then None else Some r)\<rparr>)))))"

definition email_transport ::
  "config \<Rightarrow> 'o email_env \<Rightarrow> Email \<Rightarrow> Message \<Rightarrow> 'o world \<Rightarrow> (error + string option) \<times> 'o world" where
  "email_transport cfg env this m w =
     (case email_render cfg env m of
        Inl e \<Rightarrow> (Inl e, w)
      | Inr letter \<Rightarrow>
          (sendMail env (mailService this) letter, w\<lparr>mail_sent := mail_sent w @ [letter]\<rparr>))"

definition email_sendMessage ::
  "config \<Rightarrow> 'o email_env \<Rightarrow> Email \<Rightarrow> Message \<Rightarrow> 'o world \<Rightarrow> (error + unit) \<times> 'o world" where
  "email_sendMessage cfg env this m w =
     (let (sent, w1) = email_transport cfg env this m w;
          (updated, w2) =
            (case sent of
               Inl e \<Rightarrow> (Inl e, w1)
             | Inr reply \<Rightarrow> query (update_email_ops_sending (msg_id m)) w1);
          (caught, w3) =
            (case updated of
               Inl e \<Rightarrow>
                 query (update_email_ops_error (msg_id m) (substring 0 255 (message e))) w2
             | Inr u \<Rightarrow> (Inr u, w2))
      in case caught of
           Inl e \<Rightarrow> (Inl e, w3)
         | Inr u \<Rightarrow>
             (Inr (), w3\<lparr>logs := logs w3 @
                [LogInfo ''Sent email message'' (email_workerId this) (msg_id m) ''sendMessage'']\<rparr>))"

definition email_setSendingService :: "string \<Rightarrow> Email \<Rightarrow> (error + unit) \<times> Email" where
  "email_setSendingService credentialName this = (Inr (), this)"

definition email_destroySendingService :: "Email \<Rightarrow> Email" where
  "email_destroySendingService this = this"

section \<open>The contact-preference helper of the email worker\<close>

text \<open>
  Modelled from the spec: \<^verbatim>\<open>getContactPrefLinksForEmail\<close> of
  \<^verbatim>\<open>./util/contact-preference\<close>, which \<^verbatim>\<open>email.class.ts\<close> imports and whose code is
  not among the files. The spec has the enrichment call the external preference service
  with the campaign id, the recipients and the owner's email, and augment each message
  with the preference link the service gives for its recipient; it gives the enrichment
  nothing else to do (the masthead flag belongs to the render step). So the helper
  returns the message of every row with that link and no other change; a failure of the
  service is a failure of the helper.
\<close>

definition spec_getContactPrefLinksForEmail ::
  "(nat option \<Rightarrow> string list \<Rightarrow> string \<Rightarrow> error + (string \<rightharpoonup> string)) \<Rightarrow>
   EmailResultRow list \<Rightarrow> nat option \<Rightarrow> string \<Rightarrow> error + Message list" where
  "spec_getContactPrefLinksForEmail preferenceService rows cid ownerEmail =
     (case preferenceService cid (map (\<lambda>row. recipient (row_message row)) rows) ownerEmail of
        Inl e \<Rightarrow> Inl e
      | Inr links \<Rightarrow>
          Inr (map (\<lambda>row. (row_message row)
                             \<lparr>contactPrefLink := links (recipient (row_message row))\<rparr>)
                 rows))"

section \<open>The callback ingestor\<close>

text \<open>
  Modelled from the spec: the record the callbacks update. The code that applies a
  provider callback (\<^verbatim>\<open>SmsCallbackService\<close> and the route behind
  \<^verbatim>\<open>/callback/sms\<close>) is not among the files; only its test
  \<^verbatim>\<open>sms-callback.routes.test.ts\<close> is. The attributes are those of the spec's
  MessageRecord and CallbackEvent.
\<close>

record MessageRecord =
  rec_id :: nat
  rec_campaignId :: nat
  rec_recipient :: string
  rec_status :: status
  rec_providerMessageId :: "string option"
  rec_deliveredAt :: "nat option"
  rec_errorCode :: "string option"
  rec_credentialLabel :: string

text \<open>
  Modelled from the spec: a callback event, with the provider message id, the provider
  status word and the optional error code.
\<close>

record CallbackEvent =
  ev_providerMessageId :: string
  ev_providerStatus :: string
  ev_errorCode :: "string option"

text \<open>
  Modelled from the spec: what a provider status can indicate to the ingestor (success
  before delivery confirmation, explicit delivery confirmation, failure).
\<close>

datatype indicator = SuccessIndicator | DeliveryConfirmation | FailureIndicator

text \<open>
  Modelled from the spec: the mapping of the provider's vocabulary, with the three
  status words of the spec's scenario and of the test (\<^verbatim>\<open>sent\<close>, \<^verbatim>\<open>delivered\<close>,
  \<^verbatim>\<open>failed\<close>); any other word maps to nothing.
\<close>

definition classify :: "CallbackEvent \<Rightarrow> indicator option" where
  "classify ev =
     (if ev_providerStatus ev = ''sent'' then Some SuccessIndicator
      else if ev_providerStatus ev = ''delivered'' then Some DeliveryConfirmation
      else if ev_providerStatus ev = ''failed'' then Some FailureIndicator
      else None)"

text \<open>
  Modelled from the spec: the transition of one record. A success indicator gives SENT
  only from SENDING or UNSENT; a delivery confirmation gives DELIVERED only from SENT; a
  failure indicator gives ERROR from any state and records the code.
\<close>

definition transition :: "indicator \<Rightarrow> string option \<Rightarrow> MessageRecord \<Rightarrow> MessageRecord" where
  "transition ind code r =
     (case ind of
        SuccessIndicator \<Rightarrow>
          (if rec_status r = SENDING \<or> rec_status r = UNSENT then r\<lparr>rec_status := SENT\<rparr> else r)
      | DeliveryConfirmation \<Rightarrow>
          (if rec_status r = SENT then r\<lparr>rec_status := DELIVERED\<rparr> else r)
      | FailureIndicator \<Rightarrow> r\<lparr>rec_status := ERROR, rec_errorCode := code\<rparr>)"

text \<open>
  Modelled from the spec: \<^verbatim>\<open>ingest(event)\<close>. The credential check comes first and a
  callback that fails it changes nothing; the event is applied to the records that carry
  its provider message id, and an event for an id no record carries is ignored.
\<close>

definition ingest ::
  "(CallbackEvent \<Rightarrow> bool) \<Rightarrow> CallbackEvent \<Rightarrow> MessageRecord list \<Rightarrow> error + MessageRecord list" where
  "ingest isAuthenticated ev store =
     (if \<not> isAuthenticated ev then Inl (Error ''AuthError'')
      else
        (case classify ev of
           None \<Rightarrow> Inr store
         | Some ind \<Rightarrow>
             Inr (map (\<lambda>r. if rec_providerMessageId r = Some (ev_providerMessageId ev)
                            then transition ind (ev_errorCode ev) r else r)
                    store)))"

text \<open>
  Modelled from the spec: the records after a sequence of callbacks, each one a request
  of its own; a rejected request leaves the records as they were.
\<close>

fun ingest_all ::
  "(CallbackEvent \<Rightarrow> bool) \<Rightarrow> CallbackEvent list \<Rightarrow> MessageRecord list \<Rightarrow> MessageRecord list" where
  "ingest_all isAuthenticated [] store = store"
| "ingest_all isAuthenticated (ev # evs) store =
     (case ingest isAuthenticated ev store of
        Inl e \<Rightarrow> ingest_all isAuthenticated evs store
      | Inr store' \<Rightarrow> ingest_all isAuthenticated evs store')"

section \<open>Concrete values\<close>

text \<open>
  A configuration, collaborators, workers and a world on which the definitions can be
  run: one campaign (7) owned by one user, two queued rows per channel, a gateway that
  assigns the id \<open>SM1\<close>, a mail service that answers with an id of its own, and a
  phone book that is down for the SMS worker.
\<close>

definition example_config :: config where
  "example_config =
     \<lparr>defaultCountry = ''SG'', smsFallbackActivate = False,
      phonebookContactPrefEnabled = True, showMastheadDomain = ''.gov.sg'',
      mailFrom = ''donotreply@mail.postman.gov.sg'', unsubscribeHmacVersion = ''v1'',
      unsubscribeHmacAlgo = (\<lambda>v. ''sha256''), unsubscribeHmacKey = (\<lambda>v. ''k''),
      unsubscribeUrl = ''https://postman.gov.sg'', mailOptions = ''smtp'',
      callbackHashSecret = ''s'', emailFallbackActivate = False,
      mailConfigurationSet = ''default''\<rparr>"

definition example_credentials :: TwilioCredentials where
  "example_credentials =
     \<lparr>accountSid = ''AC1'', apiKey = ''k1'', apiSecret = ''s1'', messagingServiceSid = ''MG1''\<rparr>"

definition example_row :: "nat \<Rightarrow> op_row" where
  "example_row i =
     \<lparr>op_id = i, op_status = UNSENT, op_delivered_at = None, op_message_id = None,
      op_error_code = None, op_updated_at = None\<rparr>"

definition example_sms_message :: "nat \<Rightarrow> string \<Rightarrow> sms_message" where
  "example_sms_message i to =
     \<lparr>sms_id = i, sms_recipient = to, sms_params = Map.empty, sms_body = ''Hello world'',
      sms_campaignId = Some 7\<rparr>"

definition example_sms_env :: "nat sms_env" where
  "example_sms_env =
     \<lparr>normalisePhoneNumber =
        (\<lambda>r c. if r = ''98765432'' then Inr ''+6598765432'' else Inl (Error ''Invalid phone number'')),
      template_sms = (\<lambda>b p. Inr b),
      getTwilioCredentials =
        (\<lambda>n. if n = ''twilio'' then Inr example_credentials else Inl (Error ''Credential not found'')),
      client_send = (\<lambda>call. Inr (Value ''SM1'')),
      enqueue_messages_sms = (\<lambda>j d. Inr (d\<lparr>sms_ops := sms_ops d @ [example_row j]\<rparr>)),
      update_stats_sms =
        (\<lambda>c d. if c = 7 then Inr (d\<lparr>other_tables := length (sms_ops d)\<rparr>)
                else Inl (Error ''no such campaign'')),
      get_messages_to_send_sms =
        (\<lambda>j rate d. Inr (take rate [example_sms_message 1 ''98765432'',
                                      example_sms_message 2 ''12''], d)),
      getMessagesWithContactPrefLinks = (\<lambda>ms c u. Inl (Error ''phonebook is down''))\<rparr>"

definition example_world :: "nat world" where
  "example_world =
     \<lparr>db = \<lparr>sms_ops = [example_row 1, example_row 2], email_ops = [example_row 1, example_row 2],
            users = [\<lparr>user_id = 3, user_email = ''owner@agency.gov.sg''\<rparr>],
            campaigns = [\<lparr>campaign_id = 7, campaign_user_id = 3\<rparr>],
            other_tables = 0\<rparr>,
      faults = [],
      no_value = (\<lambda>name. Error (''Named parameter '' @ name @ '' has no value in the given object.'')),
      clock = 100, sms_sent = [], mail_sent = [], logs = []\<rparr>"

definition example_message :: "nat \<Rightarrow> string \<Rightarrow> Message" where
  "example_message i to =
     \<lparr>msg_id = i, recipient = to, msg_params = Map.empty, body = ''Hello'',
      subject = Some ''Greeting'', replyTo = None, msg_from = None, msg_campaignId = Some 7,
      agencyName = None, agencyLogoURI = None, showMasthead = None, contactPrefLink = None,
      senderEmail = ''info@agency.gov.sg''\<rparr>"

definition example_preferenceService ::
  "nat option \<Rightarrow> string list \<Rightarrow> string \<Rightarrow> error + (string \<rightharpoonup> string)" where
  "example_preferenceService cid recipients ownerEmail =
     Inr (map_of (map (\<lambda>r. (r, ''https://phonebook.example/'' @ r)) recipients))"

definition example_email_env :: "nat email_env" where
  "example_email_env =
     \<lparr>isEmail = (\<lambda>r. CHR ''@'' \<in> set r),
      template_email = (\<lambda>t p. case t of None \<Rightarrow> Inl (Error ''no template'') | Some b \<Rightarrow> Inr b),
      createHmac_hex = (\<lambda>algo key d. Inr ''abc123''),
      new_URL = (\<lambda>path base. Inr (base @ path)),
      url_toString = (\<lambda>u. href u),
      generateThemedHTMLEmail = (\<lambda>t. Inr (theme_body t)),
      sendMail = (\<lambda>c l. Inr (Some ''provider-id-1'')),
      enqueue_messages_email = (\<lambda>j d. Inr (d\<lparr>email_ops := email_ops d @ [example_row j]\<rparr>)),
      update_stats_email_with_read =
        (\<lambda>c d. if c = 7 then Inr (d\<lparr>other_tables := length (email_ops d)\<rparr>)
                else Inl (Error ''no such campaign'')),
      get_messages_to_send_email_with_agency =
        (\<lambda>j rate d. Inr (take rate [\<lparr>row_message = example_message 1 ''a@b.sg''\<rparr>,
                                      \<lparr>row_message = example_message 2 ''nobody''\<rparr>], d)),
      getContactPrefLinksForEmail =
        spec_getContactPrefLinksForEmail example_preferenceService\<rparr>"

definition example_record :: "status \<Rightarrow> MessageRecord" where
  "example_record st =
     \<lparr>rec_id = 1, rec_campaignId = 7, rec_recipient = ''98765432'', rec_status = st,
      rec_providerMessageId = Some ''message_id_callback'', rec_deliveredAt = None,
      rec_errorCode = None, rec_credentialLabel = ''twilio-callback-1''\<rparr>"

definition example_event :: "string \<Rightarrow> string option \<Rightarrow> CallbackEvent" where
  "example_event st code =
     \<lparr>ev_providerMessageId = ''message_id_callback'', ev_providerStatus = st,
      ev_errorCode = code\<rparr>"

definition example_sms :: SMS where
  "example_sms =
     \<lparr>sms_workerId = ''worker-1'', smsClient = Some (TwilioClient example_credentials)\<rparr>"

definition example_email :: Email where
  "example_email = email_constructor example_config ''worker-2''"

definition example_letter :: mail where
  "example_letter =
     \<lparr>mail_from = ''donotreply@mail.postman.gov.sg'', mail_recipients = [''a@b.sg''],
      mail_subject = ''Greeting'', mail_body = ''Hello'', mail_messageId = toString_nat 1,
      mail_unsubLink = ''https://postman.gov.sg/unsubscribe/v1'', mail_bcc = None,
      mail_replyTo = None\<rparr>"

definition example_email_env_down :: "nat email_env" where
  "example_email_env_down =
     example_email_env\<lparr>getContactPrefLinksForEmail := (\<lambda>rows c u. Inl (Error ''phonebook is down''))\<rparr>"

section \<open>The failure of one attempt\<close>

text \<open>
  The error, if any, with which the recipient check, the rendering or the transport
  fails for a message: what \<^verbatim>\<open>sendMessage\<close> hands to its \<^verbatim>\<open>catch\<close> when the attempt
  to send fails. \<open>None\<close> when the send went through.
\<close>

definition sms_failure ::
  "config \<Rightarrow> 'o sms_env \<Rightarrow> SMS \<Rightarrow> sms_message \<Rightarrow> 'o world \<Rightarrow> error option" where
  "sms_failure cfg env this m w =
     (case sms_normalise cfg env m of
        Inl e \<Rightarrow> Some e
      | Inr n \<Rightarrow> (case fst (sms_transport env this m n w) of Inl e \<Rightarrow> Some e | Inr mid \<Rightarrow> None))"

definition email_failure ::
  "config \<Rightarrow> 'o email_env \<Rightarrow> Email \<Rightarrow> Message \<Rightarrow> 'o world \<Rightarrow> error option" where
  "email_failure cfg env this m w =
     (case fst (email_transport cfg env this m w) of Inl e \<Rightarrow> Some e | Inr reply \<Rightarrow> None)"

section \<open>The connection and the transaction\<close>

lemma query_accepts:
  "accepts w \<Longrightarrow> query stmt w =
     (case stmt (w\<lparr>faults := tl (faults w)\<rparr>) of
        Inl e \<Rightarrow> (Inl e, w\<lparr>faults := tl (faults w)\<rparr>)
      | Inr (r, w2) \<Rightarrow> (Inr r, w2))"
  by (cases "faults w") (auto simp: accepts_def query_def Let_def split: option.splits sum.splits)

lemma query_rejects:
  "\<not> accepts w \<Longrightarrow> \<exists>e. query stmt w = (Inl e, w\<lparr>faults := tl (faults w)\<rparr>)"
  by (cases "faults w") (auto simp: accepts_def query_def Let_def split: option.splits sum.splits)

lemma query_Inl_db: "query stmt w = (Inl e, w') \<Longrightarrow> db w' = db w"
  by (cases "faults w") (auto simp: query_def Let_def split: option.splits sum.splits)

lemma query_Inr:
  "query stmt w = (Inr r, w') \<Longrightarrow> stmt (w\<lparr>faults := tl (faults w)\<rparr>) = Inr (r, w')"
  by (cases "faults w") (auto simp: query_def Let_def split: option.splits sum.splits)

lemma select_stored_Inr:
  "select_stored f w = Inr (u, w') \<Longrightarrow> \<exists>d. f (db w) = Inr d \<and> db w' = d"
  by (auto simp: select_stored_def split: sum.splits)

lemma transaction_Inl: "transaction callback w = (Inl e, w') \<Longrightarrow> db w' = db w"
  by (auto simp: transaction_def dest: query_Inl_db split: prod.splits sum.splits)

lemma transaction_Inr:
  assumes "transaction callback w = (Inr a, w')"
  shows "\<exists>w0 w1. db w0 = db w \<and> callback w0 = (Inr a, w1) \<and> db w' = db w1"
proof -
  let ?w0 = "w\<lparr>faults := tl (faults w)\<rparr>"
  obtain r1 w1 where cb: "callback ?w0 = (r1, w1)" by (cases "callback ?w0")
  from assms have started: "query (\<lambda>w0. Inr ((), w0)) w = (Inr (), ?w0)"
    by (cases "faults w")
       (auto simp: transaction_def query_def split: option.splits prod.splits sum.splits)
  with assms cb have "r1 = Inr a \<and> db w' = db w1"
    by (auto simp: transaction_def dest!: query_Inr split: prod.splits sum.splits)
  with cb show ?thesis by (intro exI[of _ ?w0] exI[of _ w1]) simp
qed

text \<open>
  Two stored functions called one after the other inside one transaction: the outcome is
  both or neither.
\<close>

lemma two_statements_atomic:
  assumes "transaction
             (\<lambda>w0. case query (select_stored f) w0 of
                      (Inl e, w1) \<Rightarrow> (Inl e, w1)
                    | (Inr u, w1) \<Rightarrow> query (select_stored g) w1)
             w = (r, w')"
  shows "(\<exists>d1 d2. f (db w) = Inr d1 \<and> g d1 = Inr d2 \<and> r = Inr () \<and> db w' = d2) \<or>
         (\<exists>e. r = Inl e \<and> db w' = db w)"
proof (cases r)
  case (Inl e)
  with assms transaction_Inl[of _ w e w'] show ?thesis by simp
next
  case (Inr u)
  with assms obtain w0 w1 where w0: "db w0 = db w"
    and cb: "(case query (select_stored f) w0 of
                (Inl e, w1) \<Rightarrow> (Inl e, w1)
              | (Inr u, w1) \<Rightarrow> query (select_stored g) w1) = (Inr u, w1)"
    and w': "db w' = db w1"
    using transaction_Inr[of _ w u w'] by blast
  from cb obtain wa where q1: "query (select_stored f) w0 = (Inr (), wa)"
    and q2: "query (select_stored g) wa = (Inr u, w1)"
    by (auto split: prod.splits sum.splits)
  from q1 w0 obtain d1 where d1: "f (db w) = Inr d1" "db wa = d1"
    by (auto dest!: query_Inr select_stored_Inr)
  from q2 d1 obtain d2 where d2: "g d1 = Inr d2" "db w1 = d2"
    by (auto dest!: query_Inr select_stored_Inr)
  from Inr d1 d2 w' show ?thesis by simp
qed

lemma sms_enqueue_atomic:
  "(\<exists>d1 d2. enqueue_messages_sms env jobId (db w) = Inr d1 \<and>
             update_stats_sms env campaignId d1 = Inr d2 \<and>
             fst (sms_enqueueMessages env this jobId campaignId w) = Inr () \<and>
             db (snd (sms_enqueueMessages env this jobId campaignId w)) = d2) \<or>
   (\<exists>e. fst (sms_enqueueMessages env this jobId campaignId w) = Inl e \<and>
        db (snd (sms_enqueueMessages env this jobId campaignId w)) = db w)"
proof -
  obtain r w' where t: "transaction
             (\<lambda>w0. case query (select_stored (enqueue_messages_sms env jobId)) w0 of
                      (Inl e, w1) \<Rightarrow> (Inl e, w1)
                    | (Inr u, w1) \<Rightarrow> query (select_stored (update_stats_sms env campaignId)) w1)
             w = (r, w')"
    by (cases "transaction
             (\<lambda>w0. case query (select_stored (enqueue_messages_sms env jobId)) w0 of
                      (Inl e, w1) \<Rightarrow> (Inl e, w1)
                    | (Inr u, w1) \<Rightarrow> query (select_stored (update_stats_sms env campaignId)) w1)
             w")
  from two_statements_atomic[OF t] t show ?thesis
    by (auto simp: sms_enqueueMessages_def)
qed

lemma email_enqueue_atomic:
  "(\<exists>d1 d2. enqueue_messages_email env jobId (db w) = Inr d1 \<and>
             update_stats_email_with_read env campaignId d1 = Inr d2 \<and>
             fst (email_enqueueMessages env this jobId campaignId w) = Inr () \<and>
             db (snd (email_enqueueMessages env this jobId campaignId w)) = d2) \<or>
   (\<exists>e. fst (email_enqueueMessages env this jobId campaignId w) = Inl e \<and>
        db (snd (email_enqueueMessages env this jobId campaignId w)) = db w)"
proof -
  obtain r w' where t: "transaction
             (\<lambda>w0. case query (select_stored (enqueue_messages_email env jobId)) w0 of
                      (Inl e, w1) \<Rightarrow> (Inl e, w1)
                    | (Inr u, w1) \<Rightarrow>
                        query (select_stored (update_stats_email_with_read env campaignId)) w1)
             w = (r, w')"
    by (cases "transaction
             (\<lambda>w0. case query (select_stored (enqueue_messages_email env jobId)) w0 of
                      (Inl e, w1) \<Rightarrow> (Inl e, w1)
                    | (Inr u, w1) \<Rightarrow>
                        query (select_stored (update_stats_email_with_read env campaignId)) w1)
             w")
  from two_statements_atomic[OF t] t show ?thesis
    by (auto simp: email_enqueueMessages_def)
qed

lemma accepted_step:
  assumes "\<forall>f \<in> set (take (Suc k) (faults w)). f = None"
  shows "accepts w \<and> (\<forall>f \<in> set (take k (tl (faults w))). f = None)"
  using assms by (cases "faults w") (auto simp: accepts_def)

lemma two_statements_live:
  assumes ok: "\<forall>f \<in> set (take 4 (faults w)). f = None"
    and f: "f (db w) = Inr d1" and g: "g d1 = Inr d2"
  shows "\<exists>w'. transaction
             (\<lambda>w0. case query (select_stored f) w0 of
                      (Inl e, w1) \<Rightarrow> (Inl e, w1)
                    | (Inr u, w1) \<Rightarrow> query (select_stored g) w1)
             w = (Inr (), w') \<and> db w' = d2"
proof -
  let ?a = "w\<lparr>faults := tl (faults w)\<rparr>"
  let ?b = "?a\<lparr>faults := tl (faults ?a), db := d1\<rparr>"
  let ?c = "?b\<lparr>faults := tl (faults ?b), db := d2\<rparr>"
  let ?d = "?c\<lparr>faults := tl (faults ?c)\<rparr>"
  have n4: "\<forall>f \<in> set (take (Suc (Suc (Suc (Suc 0)))) (faults w)). f = None"
    using ok by (simp add: eval_nat_numeral)
  from accepted_step[OF n4] have a0: "accepts w"
    and n3: "\<forall>f \<in> set (take (Suc (Suc (Suc 0))) (faults ?a)). f = None" by simp_all
  from accepted_step[OF n3] have a1: "accepts ?a"
    and n2: "\<forall>f \<in> set (take (Suc (Suc 0)) (faults ?b)). f = None" by simp_all
  from accepted_step[OF n2] have a2: "accepts ?b"
    and n1: "\<forall>f \<in> set (take (Suc 0) (faults ?c)). f = None" by simp_all
  from accepted_step[OF n1] have a3: "accepts ?c" by simp
  have q0: "query (\<lambda>w0. Inr ((), w0)) w = (Inr (), ?a)" using a0 by (simp add: query_accepts)
  have q1: "query (select_stored f) ?a = (Inr (), ?b)"
    using a1 f by (simp add: query_accepts select_stored_def)
  have q2: "query (select_stored g) ?b = (Inr (), ?c)"
    using a2 g by (simp add: query_accepts select_stored_def)
  have q3: "query (\<lambda>w2. Inr ((), w2)) ?c = (Inr (), ?d)" using a3 by (simp add: query_accepts)
  have "transaction
             (\<lambda>w0. case query (select_stored f) w0 of
                      (Inl e, w1) \<Rightarrow> (Inl e, w1)
                    | (Inr u, w1) \<Rightarrow> query (select_stored g) w1)
             w = (Inr (), ?d)"
    unfolding transaction_def by (simp only: q0 q1 q2 q3 prod.case sum.case)
  then show ?thesis by (intro exI[of _ ?d]) simp
qed

lemma sms_enqueue_live:
  assumes "\<forall>f \<in> set (take 4 (faults w)). f = None"
    and "enqueue_messages_sms env jobId (db w) = Inr enqueued"
    and "update_stats_sms env campaignId enqueued = Inr counted"
  shows "fst (sms_enqueueMessages env this jobId campaignId w) = Inr () \<and>
         db (snd (sms_enqueueMessages env this jobId campaignId w)) = counted"
  using two_statements_live[where f="enqueue_messages_sms env jobId"
                              and g="update_stats_sms env campaignId", OF assms]
  by (auto simp: sms_enqueueMessages_def)

lemma email_enqueue_live:
  assumes "\<forall>f \<in> set (take 4 (faults w)). f = None"
    and "enqueue_messages_email env jobId (db w) = Inr enqueued"
    and "update_stats_email_with_read env campaignId enqueued = Inr counted"
  shows "fst (email_enqueueMessages env this jobId campaignId w) = Inr () \<and>
         db (snd (email_enqueueMessages env this jobId campaignId w)) = counted"
  using two_statements_live[where f="enqueue_messages_email env jobId"
                              and g="update_stats_email_with_read env campaignId", OF assms]
  by (auto simp: email_enqueueMessages_def)

text \<open>
  C2. \<^verbatim>\<open>enqueueMessages\<close> of either worker runs the enqueue statement and the statistics
  statement in one transaction. Either both stored functions succeeded, the promise
  resolves and the database is the one the second left; or the promise rejects and the
  database is the one from before the call. So when either statement fails (or the
  connection rejects a statement, the begin or the commit) neither effect is applied.
  And when the connection carries out the four statements (begin, the two calls, commit)
  and both stored functions succeed, the promise does resolve, with both effects applied.
\<close>

theorem C2_enqueue_and_stats_atomic:
  "((\<exists>d1 d2. enqueue_messages_sms senv jobId (db w) = Inr d1 \<and>
              update_stats_sms senv campaignId d1 = Inr d2 \<and>
              fst (sms_enqueueMessages senv sms jobId campaignId w) = Inr () \<and>
              db (snd (sms_enqueueMessages senv sms jobId campaignId w)) = d2) \<or>
    (\<exists>e. fst (sms_enqueueMessages senv sms jobId campaignId w) = Inl e \<and>
         db (snd (sms_enqueueMessages senv sms jobId campaignId w)) = db w)) \<and>
   ((\<exists>d1 d2. enqueue_messages_email eenv jobId (db w) = Inr d1 \<and>
              update_stats_email_with_read eenv campaignId d1 = Inr d2 \<and>
              fst (email_enqueueMessages eenv email jobId campaignId w) = Inr () \<and>
              db (snd (email_enqueueMessages eenv email jobId campaignId w)) = d2) \<or>
    (\<exists>e. fst (email_enqueueMessages eenv email jobId campaignId w) = Inl e \<and>
         db (snd (email_enqueueMessages eenv email jobId campaignId w)) = db w)) \<and>
   ((\<forall>f \<in> set (take 4 (faults w)). f = None) \<and>
    enqueue_messages_sms senv jobId (db w) = Inr enqueued \<and>
    update_stats_sms senv campaignId enqueued = Inr counted \<longrightarrow>
      fst (sms_enqueueMessages senv sms jobId campaignId w) = Inr () \<and>
      db (snd (sms_enqueueMessages senv sms jobId campaignId w)) = counted) \<and>
   ((\<forall>f \<in> set (take 4 (faults w)). f = None) \<and>
    enqueue_messages_email eenv jobId (db w) = Inr queued \<and>
    update_stats_email_with_read eenv campaignId queued = Inr tallied \<longrightarrow>
      fst (email_enqueueMessages eenv email jobId campaignId w) = Inr () \<and>
      db (snd (email_enqueueMessages eenv email jobId campaignId w)) = tallied)"
proof -
  note a = sms_enqueue_atomic[of senv jobId w campaignId sms]
  note b = email_enqueue_atomic[of eenv jobId w campaignId email]
  have c: "fst (sms_enqueueMessages senv sms jobId campaignId w) = Inr () \<and>
      db (snd (sms_enqueueMessages senv sms jobId campaignId w)) = counted"
    if "\<forall>f \<in> set (take 4 (faults w)). f = None"
       "enqueue_messages_sms senv jobId (db w) = Inr enqueued"
       "update_stats_sms senv campaignId enqueued = Inr counted"
    using sms_enqueue_live[OF that] .
  have d: "fst (email_enqueueMessages eenv email jobId campaignId w) = Inr () \<and>
      db (snd (email_enqueueMessages eenv email jobId campaignId w)) = tallied"
    if "\<forall>f \<in> set (take 4 (faults w)). f = None"
       "enqueue_messages_email eenv jobId (db w) = Inr queued"
       "update_stats_email_with_read eenv campaignId queued = Inr tallied"
    using email_enqueue_live[OF that] .
  from c d have "((\<forall>f \<in> set (take 4 (faults w)). f = None) \<and>
    enqueue_messages_sms senv jobId (db w) = Inr enqueued \<and>
    update_stats_sms senv campaignId enqueued = Inr counted \<longrightarrow>
      fst (sms_enqueueMessages senv sms jobId campaignId w) = Inr () \<and>
      db (snd (sms_enqueueMessages senv sms jobId campaignId w)) = counted) \<and>
   ((\<forall>f \<in> set (take 4 (faults w)). f = None) \<and>
    enqueue_messages_email eenv jobId (db w) = Inr queued \<and>
    update_stats_email_with_read eenv campaignId queued = Inr tallied \<longrightarrow>
      fst (email_enqueueMessages eenv email jobId campaignId w) = Inr () \<and>
      db (snd (email_enqueueMessages eenv email jobId campaignId w)) = tallied)"
    by blast
  then have l: "((\<forall>f \<in> set (take 4 (faults w)). f = None) \<and>
    enqueue_messages_sms senv jobId (db w) = Inr enqueued \<and>
    update_stats_sms senv campaignId enqueued = Inr counted \<longrightarrow>
      fst (sms_enqueueMessages senv sms jobId campaignId w) = Inr () \<and>
      db (snd (sms_enqueueMessages senv sms jobId campaignId w)) = counted)"
    and l': "((\<forall>f \<in> set (take 4 (faults w)). f = None) \<and>
    enqueue_messages_email eenv jobId (db w) = Inr queued \<and>
    update_stats_email_with_read eenv campaignId queued = Inr tallied \<longrightarrow>
      fst (email_enqueueMessages eenv email jobId campaignId w) = Inr () \<and>
      db (snd (email_enqueueMessages eenv email jobId campaignId w)) = tallied)"
    by (rule conjunct1, rule conjunct2)
  show ?thesis by (rule conjI[OF a conjI[OF b conjI[OF l l']]])
qed

theorem C2_witness:
  "fst (sms_enqueueMessages example_sms_env example_sms 3 8 example_world)
     = Inl (Error ''no such campaign'') \<and>
   db (snd (sms_enqueueMessages example_sms_env example_sms 3 8 example_world)) = db example_world \<and>
   fst (email_enqueueMessages example_email_env example_email 3 8 example_world)
     = Inl (Error ''no such campaign'') \<and>
   db (snd (email_enqueueMessages example_email_env example_email 3 8 example_world))
     = db example_world \<and>
   take 4 (faults example_world) = [] \<and>
   enqueue_messages_sms example_sms_env 3 (db example_world) =
     Inr ((db example_world)\<lparr>sms_ops := [example_row 1, example_row 2, example_row 3]\<rparr>) \<and>
   update_stats_sms example_sms_env 7
      ((db example_world)\<lparr>sms_ops := [example_row 1, example_row 2, example_row 3]\<rparr>) =
     Inr ((db example_world)\<lparr>sms_ops := [example_row 1, example_row 2, example_row 3],
                           other_tables := 3\<rparr>) \<and>
   fst (sms_enqueueMessages example_sms_env example_sms 3 7 example_world) = Inr () \<and>
   db (snd (sms_enqueueMessages example_sms_env example_sms 3 7 example_world))
     = (db example_world)\<lparr>sms_ops := [example_row 1, example_row 2, example_row 3],
                           other_tables := 3\<rparr> \<and>
   fst (sms_enqueueMessages example_sms_env example_sms 3 7
          (example_world\<lparr>faults := [None, None, None, Some (Error ''could not commit'')]\<rparr>))
     = Inl (Error ''could not commit'') \<and>
   db (snd (sms_enqueueMessages example_sms_env example_sms 3 7
          (example_world\<lparr>faults := [None, None, None, Some (Error ''could not commit'')]\<rparr>)))
     = db example_world"
proof -
  have a: "fst (sms_enqueueMessages example_sms_env example_sms 3 8 example_world)
     = Inl (Error ''no such campaign'')"
    by (simp add: sms_enqueueMessages_def transaction_def query_def select_stored_def
          example_sms_env_def example_world_def)
  have b: "fst (email_enqueueMessages example_email_env example_email 3 8 example_world)
     = Inl (Error ''no such campaign'')"
    by (simp add: email_enqueueMessages_def transaction_def query_def select_stored_def
          example_email_env_def example_world_def)
  have c: "fst (sms_enqueueMessages example_sms_env example_sms 3 7
          (example_world\<lparr>faults := [None, None, None, Some (Error ''could not commit'')]\<rparr>))
     = Inl (Error ''could not commit'')"
    by (simp add: sms_enqueueMessages_def transaction_def query_def select_stored_def
          example_sms_env_def example_world_def)
  have f: "take 4 (faults example_world) = []" by (simp add: example_world_def)
  have e1: "enqueue_messages_sms example_sms_env 3 (db example_world) =
     Inr ((db example_world)\<lparr>sms_ops := [example_row 1, example_row 2, example_row 3]\<rparr>)"
    by (simp add: example_sms_env_def example_world_def)
  have e2: "update_stats_sms example_sms_env 7
      ((db example_world)\<lparr>sms_ops := [example_row 1, example_row 2, example_row 3]\<rparr>) =
     Inr ((db example_world)\<lparr>sms_ops := [example_row 1, example_row 2, example_row 3],
                           other_tables := 3\<rparr>)"
    by (simp add: example_sms_env_def example_world_def)
  note failing = C2_enqueue_and_stats_atomic
         [where senv=example_sms_env and sms=example_sms and jobId=3 and campaignId=8
            and w=example_world and eenv=example_email_env and email=example_email]
  from failing[THEN conjunct1] a
  have r1: "db (snd (sms_enqueueMessages example_sms_env example_sms 3 8 example_world))
     = db example_world"
    by auto
  from failing[THEN conjunct2, THEN conjunct1] b
  have r2: "db (snd (email_enqueueMessages example_email_env example_email 3 8 example_world))
     = db example_world"
    by auto
  from C2_enqueue_and_stats_atomic
         [where senv=example_sms_env and sms=example_sms and jobId=3 and campaignId=7
            and w="example_world\<lparr>faults := [None, None, None, Some (Error ''could not commit'')]\<rparr>"
            and eenv=example_email_env and email=example_email, THEN conjunct1]
       c
  have r3: "db (snd (sms_enqueueMessages example_sms_env example_sms 3 7
          (example_world\<lparr>faults := [None, None, None, Some (Error ''could not commit'')]\<rparr>)))
     = db example_world"
    by auto
  from C2_enqueue_and_stats_atomic
         [where senv=example_sms_env and sms=example_sms and jobId=3 and campaignId=7
            and w=example_world and eenv=example_email_env and email=example_email
            and enqueued="(db example_world)\<lparr>sms_ops := [example_row 1, example_row 2, example_row 3]\<rparr>"
            and counted="(db example_world)\<lparr>sms_ops := [example_row 1, example_row 2, example_row 3],
                           other_tables := 3\<rparr>",
          THEN conjunct2, THEN conjunct2, THEN conjunct1]
       f e1 e2
  have r4: "fst (sms_enqueueMessages example_sms_env example_sms 3 7 example_world) = Inr () \<and>
     db (snd (sms_enqueueMessages example_sms_env example_sms 3 7 example_world))
     = (db example_world)\<lparr>sms_ops := [example_row 1, example_row 2, example_row 3],
                           other_tables := 3\<rparr>"
    by simp
  from a b c f e1 e2 r1 r2 r3 r4 show ?thesis by simp
qed

section \<open>Sending one message\<close>


lemma substring_0: "substring 0 n s = take n s"
  by (simp add: substring_def)

lemma bind_replacement_defined:
  "v \<noteq> Undefined \<Longrightarrow> bind_replacement w name v = Inr (sql_value v)"
  by (cases v) (simp_all add: bind_replacement_def)

lemma bind_replacement_undefined:
  "bind_replacement w name Undefined = Inl (no_value w name)"
  by (simp add: bind_replacement_def)

lemma sms_transport_frame:
  "db (snd (sms_transport env this m n w)) = db w \<and>
   faults (snd (sms_transport env this m n w)) = faults w \<and>
   no_value (snd (sms_transport env this m n w)) = no_value w \<and>
   clock (snd (sms_transport env this m n w)) = clock w \<and>
   mail_sent (snd (sms_transport env this m n w)) = mail_sent w \<and>
   logs (snd (sms_transport env this m n w)) = logs w"
  by (auto simp: sms_transport_def Let_def split: option.splits sum.splits)



lemma sms_attempt_cases:
  obtains (fail) e w1 where "sms_failure cfg env this m w = Some e"
      "(case sms_normalise cfg env m of Inl e \<Rightarrow> (Inl e, w)
         | Inr n \<Rightarrow> sms_transport env this m n w) = (Inl e, w1)"
      "db w1 = db w" "faults w1 = faults w" "clock w1 = clock w"
  | (ok) mid w1 where "sms_failure cfg env this m w = None"
      "(case sms_normalise cfg env m of Inl e \<Rightarrow> (Inl e, w)
         | Inr n \<Rightarrow> sms_transport env this m n w) = (Inr mid, w1)"
      "db w1 = db w" "faults w1 = faults w" "clock w1 = clock w"
proof (cases "sms_normalise cfg env m")
  case (Inl e)
  then show ?thesis using fail[of e w] by (simp add: sms_failure_def)
next
  case (Inr n)
  obtain r w1 where t: "sms_transport env this m n w = (r, w1)" by (cases "sms_transport env this m n w")
  with sms_transport_frame[of env this m n w]
  have fr: "db w1 = db w" "faults w1 = faults w" "clock w1 = clock w" by simp_all
  show ?thesis
  proof (cases r)
    case (Inl e)
    with Inr t fr show ?thesis using fail[of e w1] by (simp add: sms_failure_def)
  next
    case (Inr mid)
    with \<open>sms_normalise cfg env m = Inr n\<close> t fr show ?thesis using ok[of mid w1] by (simp add: sms_failure_def)
  qed
qed

lemma sms_failure_accepted:
  assumes "sms_failure cfg env this m w = Some e" and "accepts w"
  shows "fst (sms_sendMessage cfg env this m w) = Inr () \<and>
         db (snd (sms_sendMessage cfg env this m w)) =
           (db w)\<lparr>sms_ops := map (\<lambda>r. if op_id r = sms_id m
                                        then row_error (clock w) (take 255 (message e)) r else r)
                                (sms_ops (db w))\<rparr>"
proof (cases rule: sms_attempt_cases[of cfg env this m w])
  case (fail e' w1)
  with assms have [simp]: "e' = e" by simp
  from assms(2) fail have a: "accepts w1" by (simp add: accepts_def)
  show ?thesis
    using fail(2-) a
    by (simp add: sms_sendMessage_def query_accepts update_sms_ops_error_def substring_0
                  update_where_id_def)
next
  case (ok mid w1)
  with assms show ?thesis by simp
qed

lemma sms_failure_rejected:
  assumes "sms_failure cfg env this m w = Some e" and "\<not> accepts w"
  shows "(\<exists>e'. fst (sms_sendMessage cfg env this m w) = Inl e') \<and>
         db (snd (sms_sendMessage cfg env this m w)) = db w"
proof (cases rule: sms_attempt_cases[of cfg env this m w])
  case (fail e' w1)
  from assms(2) fail have a: "\<not> accepts w1" by (simp add: accepts_def)
  from query_rejects[OF a, of "update_sms_ops_error (sms_id m) (substring 0 255 (message e'))"]
  obtain x where "query (update_sms_ops_error (sms_id m) (substring 0 255 (message e'))) w1
     = (Inl x, w1\<lparr>faults := tl (faults w1)\<rparr>)" by blast
  with fail show ?thesis
    by (simp add: sms_sendMessage_def)
next
  case (ok mid w1)
  with assms show ?thesis by simp
qed

lemma query_Inl_fault:
  "query stmt w = (Inl e, w') \<Longrightarrow> (\<And>x. stmt x \<noteq> Inl e) \<Longrightarrow> Some e \<in> set (faults w)"
  by (cases "faults w") (auto simp: query_def Let_def split: option.splits sum.splits)

lemma sms_rejection_is_fault:
  assumes "fst (sms_sendMessage cfg env this m w) = Inl e'"
  shows "Some e' \<in> set (faults w)"
proof -
  have tl_sub: "\<And>x. set (tl (faults x)) \<subseteq> set (faults x)"
    by (metis list.set_sel(2) subsetI tl_Nil)
  show ?thesis
  proof (cases rule: sms_attempt_cases[of cfg env this m w])
    case (fail e w1)
    with assms obtain w3 where "query (update_sms_ops_error (sms_id m) (substring 0 255 (message e))) w1 = (Inl e', w3)"
      by (auto simp: sms_sendMessage_def split: prod.splits sum.splits)
    from query_Inl_fault[OF this] fail show ?thesis by (simp add: update_sms_ops_error_def)
  next
    case (ok reply w1)
    show ?thesis
    proof (cases "bind_replacement w1 '':messageId'' reply")
      case (Inl refused)
      with assms ok obtain w3 where
        "query (update_sms_ops_error (sms_id m) (substring 0 255 (message refused))) w1 = (Inl e', w3)"
        by (auto simp: sms_sendMessage_def split: prod.splits sum.splits)
      from query_Inl_fault[OF this] ok show ?thesis by (simp add: update_sms_ops_error_def)
    next
      case bound: (Inr mid)
      obtain r2 w2 where q: "query (update_sms_ops_sending (sms_id m) mid) w1 = (r2, w2)"
        by (cases "query (update_sms_ops_sending (sms_id m) mid) w1")
      show ?thesis
      proof (cases r2)
        case (Inl e)
        from q Inl have w2: "w2 = w1\<lparr>faults := tl (faults w1)\<rparr>"
          by (cases "faults w1")
             (auto simp: query_def Let_def update_sms_ops_sending_def split: option.splits)
        from assms ok bound q Inl obtain w3 where
          "query (update_sms_ops_error (sms_id m) (substring 0 255 (message e))) w2 = (Inl e', w3)"
          by (auto simp: sms_sendMessage_def split: prod.splits sum.splits)
        from query_Inl_fault[OF this] have "Some e' \<in> set (faults w2)"
          by (simp add: update_sms_ops_error_def)
        with w2 tl_sub[of w1] ok show ?thesis by auto
      next
        case (Inr u)
        with assms ok bound q show ?thesis by (simp add: sms_sendMessage_def)
      qed
    qed
  qed
qed




lemma email_transport_frame:
  "db (snd (email_transport cfg env this m w)) = db w \<and>
   faults (snd (email_transport cfg env this m w)) = faults w \<and>
   clock (snd (email_transport cfg env this m w)) = clock w \<and>
   sms_sent (snd (email_transport cfg env this m w)) = sms_sent w \<and>
   logs (snd (email_transport cfg env this m w)) = logs w"
  by (auto simp: email_transport_def split: sum.splits)

lemma email_attempt_cases:
  obtains (fail) e w1 where "email_failure cfg env this m w = Some e"
      "email_transport cfg env this m w = (Inl e, w1)"
      "db w1 = db w" "faults w1 = faults w" "clock w1 = clock w"
  | (ok) reply w1 where "email_failure cfg env this m w = None"
      "email_transport cfg env this m w = (Inr reply, w1)"
      "db w1 = db w" "faults w1 = faults w" "clock w1 = clock w"
proof -
  obtain r w1 where t: "email_transport cfg env this m w = (r, w1)"
    by (cases "email_transport cfg env this m w")
  with email_transport_frame[of cfg env this m w]
  have fr: "db w1 = db w" "faults w1 = faults w" "clock w1 = clock w" by simp_all
  show ?thesis
  proof (cases r)
    case (Inl e)
    with t fr show ?thesis using fail[of e w1] by (simp add: email_failure_def)
  next
    case (Inr reply)
    with t fr show ?thesis using ok[of reply w1] by (simp add: email_failure_def)
  qed
qed

lemma email_failure_accepted:
  assumes "email_failure cfg env this m w = Some e" and "accepts w"
  shows "fst (email_sendMessage cfg env this m w) = Inr () \<and>
         db (snd (email_sendMessage cfg env this m w)) =
           (db w)\<lparr>email_ops := map (\<lambda>r. if op_id r = msg_id m
                                        then row_error (clock w) (take 255 (message e)) r else r)
                                (email_ops (db w))\<rparr>"
proof (cases rule: email_attempt_cases[of cfg env this m w])
  case (fail e' w1)
  with assms have [simp]: "e' = e" by simp
  from assms(2) fail have a: "accepts w1" by (simp add: accepts_def)
  show ?thesis
    using fail(2-) a
    by (simp add: email_sendMessage_def query_accepts update_email_ops_error_def substring_0
                  update_where_id_def)
next
  case (ok reply w1)
  with assms show ?thesis by simp
qed

lemma email_failure_rejected:
  assumes "email_failure cfg env this m w = Some e" and "\<not> accepts w"
  shows "(\<exists>e'. fst (email_sendMessage cfg env this m w) = Inl e') \<and>
         db (snd (email_sendMessage cfg env this m w)) = db w"
proof (cases rule: email_attempt_cases[of cfg env this m w])
  case (fail e' w1)
  from assms(2) fail have a: "\<not> accepts w1" by (simp add: accepts_def)
  from query_rejects[OF a, of "update_email_ops_error (msg_id m) (substring 0 255 (message e'))"]
  obtain x where "query (update_email_ops_error (msg_id m) (substring 0 255 (message e'))) w1
     = (Inl x, w1\<lparr>faults := tl (faults w1)\<rparr>)" by blast
  with fail show ?thesis
    by (simp add: email_sendMessage_def)
next
  case (ok reply w1)
  with assms show ?thesis by simp
qed

lemma email_rejection_is_fault:
  assumes "fst (email_sendMessage cfg env this m w) = Inl e'"
  shows "Some e' \<in> set (faults w)"
proof -
  have tl_sub: "\<And>x. set (tl (faults x)) \<subseteq> set (faults x)"
    by (metis list.set_sel(2) subsetI tl_Nil)
  show ?thesis
  proof (cases rule: email_attempt_cases[of cfg env this m w])
    case (fail e w1)
    with assms obtain w3 where "query (update_email_ops_error (msg_id m) (substring 0 255 (message e))) w1 = (Inl e', w3)"
      by (auto simp: email_sendMessage_def split: prod.splits sum.splits)
    from query_Inl_fault[OF this] fail show ?thesis by (simp add: update_email_ops_error_def)
  next
    case (ok reply w1)
    obtain r2 w2 where q: "query (update_email_ops_sending (msg_id m)) w1 = (r2, w2)"
      by (cases "query (update_email_ops_sending (msg_id m)) w1")
    show ?thesis
    proof (cases r2)
      case (Inl e)
      from q Inl have w2: "w2 = w1\<lparr>faults := tl (faults w1)\<rparr>"
        by (cases "faults w1") (auto simp: query_def Let_def update_email_ops_sending_def split: option.splits)
      from assms ok q Inl obtain w3 where "query (update_email_ops_error (msg_id m) (substring 0 255 (message e))) w2 = (Inl e', w3)"
        by (auto simp: email_sendMessage_def split: prod.splits sum.splits)
      from query_Inl_fault[OF this] have "Some e' \<in> set (faults w2)" by (simp add: update_email_ops_error_def)
      with w2 tl_sub[of w1] ok show ?thesis by auto
    next
      case (Inr u)
      with assms ok q show ?thesis by (simp add: email_sendMessage_def)
    qed
  qed
qed

lemma sms_success_accepted:
  assumes "sms_normalise cfg env m = Inr n"
    and "fst (sms_transport env this m n w) = Inr reply" and "reply \<noteq> Undefined"
    and "accepts w"
  shows "fst (sms_sendMessage cfg env this m w) = Inr () \<and>
         db (snd (sms_sendMessage cfg env this m w)) =
           (db w)\<lparr>sms_ops := map (\<lambda>r. if op_id r = sms_id m
                                        then row_sending_sms (clock w) (sql_value reply) r else r)
                                (sms_ops (db w))\<rparr> \<and>
         clock (snd (sms_sendMessage cfg env this m w)) = Suc (clock w)"
proof -
  obtain r w1 where t: "sms_transport env this m n w = (r, w1)" by (cases "sms_transport env this m n w")
  with sms_transport_frame[of env this m n w]
  have fr: "db w1 = db w" "faults w1 = faults w" "clock w1 = clock w" by simp_all
  with assms(4) have a: "accepts w1" by (simp add: accepts_def)
  from t assms(2) have r: "r = Inr reply" by simp
  note b = bind_replacement_defined[OF assms(3), of w1 "'':messageId''"]
  show ?thesis
    using assms(1) t r fr a b
    by (simp add: sms_sendMessage_def query_accepts update_sms_ops_sending_def update_where_id_def)
qed

text \<open>
  A send that resolves with \<^verbatim>\<open>undefined\<close>: the UPDATE to SENDING is refused before the
  connection is asked, and the failure handler takes over with the refusal.
\<close>

lemma sms_undefined_reply:
  assumes "sms_normalise cfg env m = Inr n"
    and "fst (sms_transport env this m n w) = Inr Undefined"
  shows "(accepts w \<longrightarrow>
            fst (sms_sendMessage cfg env this m w) = Inr () \<and>
            db (snd (sms_sendMessage cfg env this m w)) =
              (db w)\<lparr>sms_ops := map (\<lambda>r. if op_id r = sms_id m
                    then row_error (clock w) (take 255 (message (no_value w '':messageId''))) r
                    else r)
                   (sms_ops (db w))\<rparr>) \<and>
         (\<not> accepts w \<longrightarrow>
            (\<exists>e'. fst (sms_sendMessage cfg env this m w) = Inl e') \<and>
            db (snd (sms_sendMessage cfg env this m w)) = db w)"
proof -
  obtain r w1 where t: "sms_transport env this m n w = (r, w1)" by (cases "sms_transport env this m n w")
  with sms_transport_frame[of env this m n w]
  have fr: "db w1 = db w" "faults w1 = faults w" "clock w1 = clock w" "no_value w1 = no_value w"
    by simp_all
  from t assms(2) have r: "r = Inr Undefined" by simp
  have acc: ?thesis if a: "accepts w"
  proof -
    from a fr have a1: "accepts w1" by (simp add: accepts_def)
    show ?thesis
      using assms(1) t r fr a a1
      by (simp add: sms_sendMessage_def bind_replacement_undefined query_accepts
            update_sms_ops_error_def update_where_id_def substring_0)
  qed
  have rej: ?thesis if a: "\<not> accepts w"
  proof -
    from a fr have a1: "\<not> accepts w1" by (simp add: accepts_def)
    from query_rejects[OF a1, of "update_sms_ops_error (sms_id m)
            (substring 0 255 (message (no_value w '':messageId'')))"]
    obtain x where "query (update_sms_ops_error (sms_id m)
            (substring 0 255 (message (no_value w '':messageId'')))) w1
       = (Inl x, w1\<lparr>faults := tl (faults w1)\<rparr>)" by blast
    with assms(1) t r fr a show ?thesis
      by (simp add: sms_sendMessage_def bind_replacement_undefined)
  qed
  from acc rej show ?thesis by blast
qed

lemma email_success_accepted:
  assumes "fst (email_transport cfg env this m w) = Inr reply" and "accepts w"
  shows "fst (email_sendMessage cfg env this m w) = Inr () \<and>
         db (snd (email_sendMessage cfg env this m w)) =
           (db w)\<lparr>email_ops := map (\<lambda>r. if op_id r = msg_id m
                                        then row_sending_email (clock w) r else r)
                                (email_ops (db w))\<rparr> \<and>
         clock (snd (email_sendMessage cfg env this m w)) = Suc (clock w)"
proof -
  obtain r w1 where t: "email_transport cfg env this m w = (r, w1)"
    by (cases "email_transport cfg env this m w")
  with email_transport_frame[of cfg env this m w]
  have fr: "db w1 = db w" "faults w1 = faults w" "clock w1 = clock w" by simp_all
  with assms(2) have a: "accepts w1" by (simp add: accepts_def)
  from t assms(1) have r: "r = Inr reply" by simp
  show ?thesis
    using t r fr a
    by (simp add: email_sendMessage_def query_accepts update_email_ops_sending_def update_where_id_def)
qed






lemma flag_irrelevant:
  "sms_sendMessage (cfg\<lparr>smsFallbackActivate := b\<rparr>) env this m w = sms_sendMessage cfg env this m w"
  by (simp add: sms_sendMessage_def sms_normalise_def)

lemma sms_transport_sent:
  "\<exists>calls. sms_sent (snd (sms_transport env this m n w)) = sms_sent w @ calls \<and>
     (\<forall>call \<in> set calls. Some (send_via call) = smsClient this \<and> send_recipient call = n)"
  by (auto simp: sms_transport_def Let_def split: option.splits sum.splits)

lemma query_sms_sent:
  "query stmt w = (r, w') \<Longrightarrow>
   (\<And>w0 r w1. stmt w0 = Inr (r, w1) \<Longrightarrow> sms_sent w1 = sms_sent w0) \<Longrightarrow>
   sms_sent w' = sms_sent w"
  by (cases "faults w") (auto simp: query_def Let_def split: option.splits sum.splits)

lemma update_sending_sent:
  "query (update_sms_ops_sending i mid) w = (r, w') \<Longrightarrow> sms_sent w' = sms_sent w"
  by (erule query_sms_sent) (auto simp: update_sms_ops_sending_def)

lemma update_error_sent:
  "query (update_sms_ops_error i s) w = (r, w') \<Longrightarrow> sms_sent w' = sms_sent w"
  by (erule query_sms_sent) (auto simp: update_sms_ops_error_def)

lemma sms_sendMessage_sent_invalid:
  "sms_normalise cfg env m = Inl e \<Longrightarrow>
   sms_sent (snd (sms_sendMessage cfg env this m w)) = sms_sent w"
  by (auto simp: sms_sendMessage_def dest: update_error_sent split: prod.splits sum.splits)

lemma sms_sendMessage_sent_valid:
  "sms_normalise cfg env m = Inr n \<Longrightarrow>
   sms_sent (snd (sms_sendMessage cfg env this m w)) = sms_sent (snd (sms_transport env this m n w))"
  by (auto simp: sms_sendMessage_def dest!: update_error_sent update_sending_sent
           split: prod.splits sum.splits)

lemma sms_sendMessage_sent:
  "\<exists>calls. sms_sent (snd (sms_sendMessage cfg env this m w)) = sms_sent w @ calls \<and>
     (\<forall>call \<in> set calls. Some (send_via call) = smsClient this \<and>
        sms_normalise cfg env m = Inr (send_recipient call))"
proof (cases "sms_normalise cfg env m")
  case (Inl e)
  from sms_sendMessage_sent_invalid[OF this] show ?thesis by simp
next
  case (Inr n)
  from sms_sendMessage_sent_valid[OF this] sms_transport_sent[of env this m n w] Inr
  show ?thesis by auto
qed

section \<open>Setting up the sending service\<close>

text \<open>
  C8. When the credential service rejects during \<^verbatim>\<open>setSendingService\<close> (no credential
  of that name, say), \<^verbatim>\<open>setSendingService\<close> rejects with that error and the worker is
  exactly the one from before the call: its sending client is untouched.
\<close>

theorem C8_failed_credentials_change_nothing:
  "getTwilioCredentials env credentialName = Inl e \<Longrightarrow>
   sms_setSendingService cfg env credentialName this = (Inl e, this)"
  by (simp add: sms_setSendingService_def)

theorem C8_witness:
  "getTwilioCredentials example_sms_env ''missing'' = Inl (Error ''Credential not found'') \<and>
   sms_setSendingService example_config example_sms_env ''missing'' example_sms =
     (Inl (Error ''Credential not found''), example_sms)"
  using C8_failed_credentials_change_nothing
          [of example_sms_env "''missing''" "Error ''Credential not found''" example_config example_sms]
  by (simp add: example_sms_env_def)

text \<open>
  C7. The gateway client is chosen when \<^verbatim>\<open>setSendingService\<close> resolves, from the
  fallback flag as the configuration has it then. \<^verbatim>\<open>sendMessage\<close> under any later
  configuration gives the same outcome whatever the flag says by then, so it does not
  read it, and every call it makes to a gateway goes through the client of the worker.
\<close>

theorem C7_client_chosen_at_setup:
  assumes "sms_setSendingService cfg env credentialName this = (Inr (), this')"
  shows "(\<exists>credentials. getTwilioCredentials env credentialName = Inr credentials \<and>
            smsClient this' = Some (if smsFallbackActivate cfg then SnsSmsClient
                                    else TwilioClient credentials)) \<and>
         sms_sendMessage (later\<lparr>smsFallbackActivate := b\<rparr>) env this' m w =
           sms_sendMessage later env this' m w \<and>
         (\<exists>calls. sms_sent (snd (sms_sendMessage later env this' m w)) = sms_sent w @ calls \<and>
            (\<forall>call \<in> set calls. Some (send_via call) = smsClient this'))"
proof -
  from assms have "\<exists>credentials. getTwilioCredentials env credentialName = Inr credentials \<and>
            smsClient this' = Some (if smsFallbackActivate cfg then SnsSmsClient
                                    else TwilioClient credentials)"
    by (auto simp: sms_setSendingService_def split: sum.splits)
  moreover from sms_sendMessage_sent[of later env this' m w]
  have "\<exists>calls. sms_sent (snd (sms_sendMessage later env this' m w)) = sms_sent w @ calls \<and>
            (\<forall>call \<in> set calls. Some (send_via call) = smsClient this')"
    by blast
  ultimately show ?thesis using flag_irrelevant[where cfg=later and b=b and env=env and this=this' and m=m and w=w] by simp
qed

theorem C7_witness:
  "sms_setSendingService example_config example_sms_env ''twilio'' (sms_constructor ''worker-1'')
     = (Inr (), example_sms) \<and>
   smsClient example_sms = Some (TwilioClient example_credentials) \<and>
   sms_sendMessage (example_config\<lparr>smsFallbackActivate := True\<rparr>) example_sms_env example_sms
       (example_sms_message 1 ''98765432'') example_world =
     sms_sendMessage example_config example_sms_env example_sms
       (example_sms_message 1 ''98765432'') example_world \<and>
   map send_via (sms_sent (snd (sms_sendMessage (example_config\<lparr>smsFallbackActivate := True\<rparr>)
       example_sms_env example_sms (example_sms_message 1 ''98765432'') example_world)))
     = [TwilioClient example_credentials]"
proof -
  have s: "sms_setSendingService example_config example_sms_env ''twilio'' (sms_constructor ''worker-1'')
     = (Inr (), example_sms)"
    by (simp add: sms_setSendingService_def example_sms_env_def example_config_def
                  sms_constructor_def example_sms_def)
  have sent: "map send_via (sms_sent (snd (sms_sendMessage example_config
       example_sms_env example_sms (example_sms_message 1 ''98765432'') example_world)))
     = [TwilioClient example_credentials]"
    by (simp add: sms_sendMessage_def sms_normalise_def sms_transport_def example_sms_env_def
          example_config_def example_sms_def example_sms_message_def example_world_def
          query_def update_sms_ops_sending_def bind_replacement_def sql_value_def Let_def)
  from C7_client_chosen_at_setup[OF s, where later=example_config and b=True
         and m="example_sms_message 1 ''98765432''" and w=example_world]
  show ?thesis using s sent by (simp add: example_sms_def)
qed

text \<open>
  C10, as stated, fails: after \<^verbatim>\<open>destroySendingService\<close>, for a recipient that
  normalises and a connection that carries out every statement, \<^verbatim>\<open>sendMessage\<close>
  resolves and calls no gateway, but the row ends as ERROR, not SENDING: the
  \<^verbatim>\<open>:messageId\<close> handed to the UPDATE is \<^verbatim>\<open>undefined\<close>, the query call refuses it,
  and the failure handler records the refusal.
\<close>

theorem C10_counterexample:
  "fst (sms_sendMessage example_config example_sms_env (sms_destroySendingService example_sms)
          (example_sms_message 1 ''98765432'') example_world) = Inr () \<and>
   sms_sent (snd (sms_sendMessage example_config example_sms_env
          (sms_destroySendingService example_sms)
          (example_sms_message 1 ''98765432'') example_world)) = [] \<and>
   map (\<lambda>row. (op_id row, op_status row, op_message_id row, op_error_code row))
     (sms_ops (db (snd (sms_sendMessage example_config example_sms_env
          (sms_destroySendingService example_sms)
          (example_sms_message 1 ''98765432'') example_world))))
     = [(1, ERROR, None, Some ''Named parameter :messageId has no value in the given object.''),
        (2, UNSENT, None, None)]"
  by (simp add: sms_sendMessage_def sms_normalise_def sms_transport_def
        sms_destroySendingService_def bind_replacement_def query_def update_sms_ops_error_def
        update_where_id_def row_error_def substring_def example_sms_env_def
        example_sms_message_def example_config_def example_world_def example_row_def Let_def)

text \<open>
  C10, amended. On a worker with no sending client (fresh from the constructor, or
  after \<^verbatim>\<open>destroySendingService\<close>), for a recipient that normalises, \<^verbatim>\<open>sendMessage\<close>
  calls no gateway and never issues the UPDATE to SENDING. When the connection carries
  out the UPDATE of the failure handler, \<^verbatim>\<open>sendMessage\<close> resolves and the rows of that
  id are ERROR, with the first 255 characters of the refusal of the undefined
  \<^verbatim>\<open>:messageId\<close> as error code; when the connection rejects that UPDATE,
  \<^verbatim>\<open>sendMessage\<close> rejects and the database is unchanged.
\<close>

theorem C10_no_client_ends_in_error:
  fixes cfg env m w this
  defines "r \<equiv> sms_sendMessage cfg env this m w"
  assumes "this = sms_constructor workerId \<or> this = sms_destroySendingService before"
    and "normalisePhoneNumber env (sms_recipient m) (defaultCountry cfg) = Inr n"
  shows "sms_sent (snd r) = sms_sent w \<and>
         (accepts w \<longrightarrow>
            fst r = Inr () \<and>
            db (snd r) = (db w)\<lparr>sms_ops :=
              map (\<lambda>row. if op_id row = sms_id m
                          then row\<lparr>op_status := ERROR, op_delivered_at := Some (clock w),
                                   op_error_code :=
                                     Some (take 255 (message (no_value w '':messageId''))),
                                   op_updated_at := Some (clock w)\<rparr>
                          else row)
                  (sms_ops (db w))\<rparr>) \<and>
         (\<not> accepts w \<longrightarrow> (\<exists>e'. fst r = Inl e') \<and> db (snd r) = db w)"
proof -
  from assms(2) have none: "smsClient this = None"
    by (auto simp: sms_constructor_def sms_destroySendingService_def)
  from assms(3) have norm: "sms_normalise cfg env m = Inr n" by (simp add: sms_normalise_def)
  from none have tr: "sms_transport env this m n w = (Inr Undefined, w)"
    by (simp add: sms_transport_def)
  then have u: "fst (sms_transport env this m n w) = Inr Undefined" by simp
  from sms_sendMessage_sent_valid[OF norm, of this w] tr
  have "sms_sent (snd r) = sms_sent w" by (simp add: r_def)
  with sms_undefined_reply[OF norm u] show ?thesis
    by (simp add: r_def row_error_def)
qed

theorem C10_witness:
  "normalisePhoneNumber example_sms_env (sms_recipient (example_sms_message 1 ''98765432''))
      (defaultCountry example_config) = Inr ''+6598765432'' \<and>
   accepts example_world \<and>
   fst (sms_sendMessage example_config example_sms_env (sms_constructor ''worker-1'')
          (example_sms_message 1 ''98765432'') example_world) = Inr () \<and>
   sms_sent (snd (sms_sendMessage example_config example_sms_env (sms_constructor ''worker-1'')
          (example_sms_message 1 ''98765432'') example_world)) = [] \<and>
   map (\<lambda>row. (op_id row, op_status row, op_message_id row))
     (sms_ops (db (snd (sms_sendMessage example_config example_sms_env
          (sms_constructor ''worker-1'')
          (example_sms_message 1 ''98765432'') example_world))))
     = [(1, ERROR, None), (2, UNSENT, None)]"
proof -
  have n: "normalisePhoneNumber example_sms_env (sms_recipient (example_sms_message 1 ''98765432''))
      (defaultCountry example_config) = Inr ''+6598765432''"
    by (simp add: example_sms_env_def example_sms_message_def)
  have a: "accepts example_world" by (simp add: accepts_def example_world_def)
  from C10_no_client_ends_in_error[OF disjI1[OF refl] n, of "''worker-1''" example_world]
  show ?thesis using n a
    by (simp add: example_world_def example_sms_message_def example_row_def)
qed

section \<open>Callbacks\<close>

lemma transition_keeps_error:
  "rec_status r = ERROR \<Longrightarrow> rec_status (transition ind code r) = ERROR"
  by (cases ind) (simp_all add: transition_def)

lemma ingest_keeps_error:
  assumes "ingest isAuthenticated ev store = Inr store'"
  shows "length store' = length store \<and>
         (\<forall>i < length store. rec_status (store ! i) = ERROR \<longrightarrow> rec_status (store' ! i) = ERROR)"
  using assms
  by (auto simp: ingest_def transition_keeps_error split: if_splits option.splits)

text \<open>
  C1. Whatever callbacks arrive, in whatever order and whether or not they pass the
  credential check, a record whose status is ERROR keeps that status: the records stay
  in place and the one at any position that held ERROR still holds it, a later
  \<^verbatim>\<open>delivered\<close> for the same provider message id included.
\<close>

theorem C1_error_is_absorbing:
  assumes "i < length store" and "rec_status (store ! i) = ERROR"
  shows "length (ingest_all isAuthenticated evs store) = length store \<and>
         rec_status (ingest_all isAuthenticated evs store ! i) = ERROR"
  using assms
proof (induction evs arbitrary: store)
  case Nil
  then show ?case by simp
next
  case (Cons ev evs)
  show ?case
  proof (cases "ingest isAuthenticated ev store")
    case (Inl e)
    with Cons show ?thesis by simp
  next
    case (Inr store')
    from ingest_keeps_error[OF Inr] Cons.prems
    have "i < length store'" "rec_status (store' ! i) = ERROR" "length store' = length store"
      by auto
    with Cons.IH[of store'] Inr show ?thesis by simp
  qed
qed

theorem C1_witness:
  "ingest_all (\<lambda>ev. True)
     [example_event ''sent'' None, example_event ''failed'' (Some ''ERRORBOI'')]
     [example_record UNSENT]
     = [(example_record ERROR)\<lparr>rec_errorCode := Some ''ERRORBOI''\<rparr>] \<and>
   0 < length [(example_record ERROR)\<lparr>rec_errorCode := Some ''ERRORBOI''\<rparr>] \<and>
   rec_status ([(example_record ERROR)\<lparr>rec_errorCode := Some ''ERRORBOI''\<rparr>] ! 0) = ERROR \<and>
   rec_status (ingest_all (\<lambda>ev. True) [example_event ''delivered'' None]
                 [(example_record ERROR)\<lparr>rec_errorCode := Some ''ERRORBOI''\<rparr>] ! 0) = ERROR"
proof -
  have run: "ingest_all (\<lambda>ev. True)
     [example_event ''sent'' None, example_event ''failed'' (Some ''ERRORBOI'')]
     [example_record UNSENT]
     = [(example_record ERROR)\<lparr>rec_errorCode := Some ''ERRORBOI''\<rparr>]"
    by (simp add: ingest_def classify_def transition_def example_event_def example_record_def)
  have st: "rec_status ([(example_record ERROR)\<lparr>rec_errorCode := Some ''ERRORBOI''\<rparr>] ! 0) = ERROR"
    by (simp add: example_record_def)
  from C1_error_is_absorbing[of 0 "[(example_record ERROR)\<lparr>rec_errorCode := Some ''ERRORBOI''\<rparr>]"
         "\<lambda>ev. True" "[example_event ''delivered'' None]"] st run
  show ?thesis by simp
qed

section \<open>The recipient check\<close>

lemma query_mail_sent:
  "query stmt w = (r, w') \<Longrightarrow>
   (\<And>w0 r w1. stmt w0 = Inr (r, w1) \<Longrightarrow> mail_sent w1 = mail_sent w0) \<Longrightarrow>
   mail_sent w' = mail_sent w"
  by (cases "faults w") (auto simp: query_def Let_def split: option.splits sum.splits)

lemma update_email_sending_sent:
  "query (update_email_ops_sending i) w = (r, w') \<Longrightarrow> mail_sent w' = mail_sent w"
  by (erule query_mail_sent) (auto simp: update_email_ops_sending_def)

lemma update_email_error_sent:
  "query (update_email_ops_error i s) w = (r, w') \<Longrightarrow> mail_sent w' = mail_sent w"
  by (erule query_mail_sent) (auto simp: update_email_ops_error_def)

lemma email_sendMessage_mail_sent:
  "mail_sent (snd (email_sendMessage cfg env this m w)) =
     mail_sent (snd (email_transport cfg env this m w))"
proof -
  obtain sent w1 where t: "email_transport cfg env this m w = (sent, w1)"
    by (cases "email_transport cfg env this m w")
  obtain updated w2 where u: "(case sent of Inl e \<Rightarrow> (Inl e, w1)
       | Inr reply \<Rightarrow> query (update_email_ops_sending (msg_id m)) w1) = (updated, w2)"
    by (cases "(case sent of Inl e \<Rightarrow> (Inl e, w1)
       | Inr reply \<Rightarrow> query (update_email_ops_sending (msg_id m)) w1)")
  then have w2: "mail_sent w2 = mail_sent w1"
    by (cases sent) (auto dest: update_email_sending_sent)
  obtain caught w3 where c: "(case updated of
       Inl e \<Rightarrow> query (update_email_ops_error (msg_id m) (substring 0 255 (message e))) w2
     | Inr u \<Rightarrow> (Inr u, w2)) = (caught, w3)"
    by (cases "(case updated of
       Inl e \<Rightarrow> query (update_email_ops_error (msg_id m) (substring 0 255 (message e))) w2
     | Inr u \<Rightarrow> (Inr u, w2))")
  then have w3: "mail_sent w3 = mail_sent w2"
    by (cases updated) (auto dest: update_email_error_sent)
  from t u c w2 w3 show ?thesis
    by (cases caught) (simp_all add: email_sendMessage_def)
qed

lemma email_render_valid:
  "email_render cfg env m = Inr letter \<Longrightarrow>
     isEmail env (recipient m) \<and> mail_recipients letter = [recipient m]"
  by (auto simp: email_render_def Let_def split: if_splits sum.splits)

lemma email_transport_mail_sent:
  "\<exists>mails. mail_sent (snd (email_transport cfg env this m w)) = mail_sent w @ mails \<and>
     (\<forall>letter \<in> set mails. isEmail env (recipient m) \<and> mail_recipients letter = [recipient m])"
  by (auto simp: email_transport_def dest: email_render_valid split: sum.splits)

lemma sms_failure_invalid:
  "normalisePhoneNumber env (sms_recipient m) (defaultCountry cfg) = Inl err \<Longrightarrow>
   sms_failure cfg env this m w = Some (Error ''Recipient is incorrectly formatted'')"
  by (simp add: sms_failure_def sms_normalise_def)

lemma sms_failure_render:
  "normalisePhoneNumber env (sms_recipient m) (defaultCountry cfg) = Inr n \<Longrightarrow>
   smsClient this = Some c \<Longrightarrow>
   template_sms env (sms_body m) (sms_params m) = Inl e \<Longrightarrow>
   sms_failure cfg env this m w = Some e"
  by (simp add: sms_failure_def sms_normalise_def sms_transport_def)

lemma sms_failure_gateway:
  "normalisePhoneNumber env (sms_recipient m) (defaultCountry cfg) = Inr n \<Longrightarrow>
   smsClient this = Some c \<Longrightarrow>
   template_sms env (sms_body m) (sms_params m) = Inr text \<Longrightarrow>
   client_send env \<lparr>send_via = c, send_id = sms_id m, send_recipient = n, send_message = text,
                    send_campaignId = sms_campaignId m\<rparr> = Inl e \<Longrightarrow>
   sms_failure cfg env this m w = Some e"
  by (simp add: sms_failure_def sms_normalise_def sms_transport_def)

lemma email_failure_invalid:
  "\<not> isEmail env (recipient m) \<Longrightarrow>
   email_failure cfg env this m w = Some (Error ''Recipient is incorrectly formatted'')"
  by (simp add: email_failure_def email_transport_def email_render_def)

lemma email_failure_render:
  "email_render cfg env m = Inl e \<Longrightarrow> email_failure cfg env this m w = Some e"
  by (simp add: email_failure_def email_transport_def)

lemma email_failure_mail_service:
  "email_render cfg env m = Inr letter \<Longrightarrow> sendMail env (mailService this) letter = Inl e \<Longrightarrow>
   email_failure cfg env this m w = Some e"
  by (simp add: email_failure_def email_transport_def)

lemma take_255_recipient_error:
  "take 255 ''Recipient is incorrectly formatted'' = ''Recipient is incorrectly formatted''"
  by simp

text \<open>
  C5, amended. Every call \<^verbatim>\<open>sendMessage\<close> makes to the gateway carries a recipient that
  the phone number service normalised under the configured default country, and every
  mail it hands to the mail service goes to a recipient the validator accepted. When the
  recipient does not normalise (SMS) or is no email address (email), the attempt fails
  with \<^verbatim>\<open>Recipient is incorrectly formatted\<close> and no call to the transport is made;
  then, if the connection carries out the UPDATE of the failure handler,
  \<^verbatim>\<open>sendMessage\<close> resolves and the rows of that id are set to ERROR with that message
  as the error code, and if the connection rejects that UPDATE, \<^verbatim>\<open>sendMessage\<close>
  rejects and the database is unchanged.
\<close>

theorem C5_recipient_checked_before_send:
  fixes cfg :: config and senv :: "'o sms_env" and eenv :: "'o email_env" and w :: "'o world"
    and sms sm email em
  defines "rs \<equiv> sms_sendMessage cfg senv sms sm w"
      and "re \<equiv> email_sendMessage cfg eenv email em w"
  shows "(\<exists>calls. sms_sent (snd rs) = sms_sent w @ calls \<and>
            (\<forall>call \<in> set calls.
               normalisePhoneNumber senv (sms_recipient sm) (defaultCountry cfg) =
                 Inr (send_recipient call))) \<and>
         (\<exists>mails. mail_sent (snd re) = mail_sent w @ mails \<and>
            (\<forall>letter \<in> set mails.
               isEmail eenv (recipient em) \<and> mail_recipients letter = [recipient em])) \<and>
         (normalisePhoneNumber senv (sms_recipient sm) (defaultCountry cfg) = Inl err \<longrightarrow>
            sms_failure cfg senv sms sm w = Some (Error ''Recipient is incorrectly formatted'') \<and>
            sms_sent (snd rs) = sms_sent w \<and>
            (accepts w \<longrightarrow>
               fst rs = Inr () \<and>
               sms_ops (db (snd rs)) =
                 map (\<lambda>r. if op_id r = sms_id sm
                           then r\<lparr>op_status := ERROR, op_delivered_at := Some (clock w),
                                  op_error_code := Some ''Recipient is incorrectly formatted'',
                                  op_updated_at := Some (clock w)\<rparr>
                           else r)
                     (sms_ops (db w))) \<and>
            (\<not> accepts w \<longrightarrow> (\<exists>e'. fst rs = Inl e') \<and> db (snd rs) = db w)) \<and>
         (\<not> isEmail eenv (recipient em) \<longrightarrow>
            email_failure cfg eenv email em w = Some (Error ''Recipient is incorrectly formatted'') \<and>
            mail_sent (snd re) = mail_sent w \<and>
            (accepts w \<longrightarrow>
               fst re = Inr () \<and>
               email_ops (db (snd re)) =
                 map (\<lambda>r. if op_id r = msg_id em
                           then r\<lparr>op_status := ERROR, op_delivered_at := Some (clock w),
                                  op_error_code := Some ''Recipient is incorrectly formatted'',
                                  op_updated_at := Some (clock w)\<rparr>
                           else r)
                     (email_ops (db w))) \<and>
            (\<not> accepts w \<longrightarrow> (\<exists>e'. fst re = Inl e') \<and> db (snd re) = db w))"
proof -
  have a: "\<exists>calls. sms_sent (snd rs) = sms_sent w @ calls \<and>
            (\<forall>call \<in> set calls.
               normalisePhoneNumber senv (sms_recipient sm) (defaultCountry cfg) =
                 Inr (send_recipient call))"
    using sms_sendMessage_sent[of cfg senv sms sm w]
    unfolding rs_def by (auto simp: sms_normalise_def split: sum.splits)
  have b: "\<exists>mails. mail_sent (snd re) = mail_sent w @ mails \<and>
            (\<forall>letter \<in> set mails.
               isEmail eenv (recipient em) \<and> mail_recipients letter = [recipient em])"
    using email_transport_mail_sent[of cfg eenv email em w]
    unfolding re_def by (simp add: email_sendMessage_mail_sent)
  have c: "sms_failure cfg senv sms sm w = Some (Error ''Recipient is incorrectly formatted'') \<and>
            sms_sent (snd rs) = sms_sent w \<and>
            (accepts w \<longrightarrow>
               fst rs = Inr () \<and>
               sms_ops (db (snd rs)) =
                 map (\<lambda>r. if op_id r = sms_id sm
                           then r\<lparr>op_status := ERROR, op_delivered_at := Some (clock w),
                                  op_error_code := Some ''Recipient is incorrectly formatted'',
                                  op_updated_at := Some (clock w)\<rparr>
                           else r)
                     (sms_ops (db w))) \<and>
            (\<not> accepts w \<longrightarrow> (\<exists>e'. fst rs = Inl e') \<and> db (snd rs) = db w)"
    if inv: "normalisePhoneNumber senv (sms_recipient sm) (defaultCountry cfg) = Inl err"
  proof -
    note f = sms_failure_invalid[OF inv, of sms w]
    from inv have "sms_normalise cfg senv sm = Inl (Error ''Recipient is incorrectly formatted'')"
      by (simp add: sms_normalise_def)
    from sms_sendMessage_sent_invalid[OF this] have s: "sms_sent (snd rs) = sms_sent w"
      by (simp add: rs_def)
    from sms_failure_accepted[OF f] sms_failure_rejected[OF f] f s show ?thesis
      by (simp add: rs_def row_error_def)
  qed
  have d: "email_failure cfg eenv email em w = Some (Error ''Recipient is incorrectly formatted'') \<and>
            mail_sent (snd re) = mail_sent w \<and>
            (accepts w \<longrightarrow>
               fst re = Inr () \<and>
               email_ops (db (snd re)) =
                 map (\<lambda>r. if op_id r = msg_id em
                           then r\<lparr>op_status := ERROR, op_delivered_at := Some (clock w),
                                  op_error_code := Some ''Recipient is incorrectly formatted'',
                                  op_updated_at := Some (clock w)\<rparr>
                           else r)
                     (email_ops (db w))) \<and>
            (\<not> accepts w \<longrightarrow> (\<exists>e'. fst re = Inl e') \<and> db (snd re) = db w)"
    if inv: "\<not> isEmail eenv (recipient em)"
  proof -
    note f = email_failure_invalid[OF inv, of cfg email w]
    from inv have "mail_sent (snd (email_transport cfg eenv email em w)) = mail_sent w"
      by (simp add: email_transport_def email_render_def)
    then have s: "mail_sent (snd re) = mail_sent w"
      by (simp add: re_def email_sendMessage_mail_sent)
    from email_failure_accepted[OF f] email_failure_rejected[OF f] f s show ?thesis
      by (simp add: re_def row_error_def)
  qed
  from a b c d show ?thesis by blast
qed

lemma example_accepts: "accepts example_world"
  by (simp add: accepts_def example_world_def)

lemma example_sms_invalid:
  "normalisePhoneNumber example_sms_env (sms_recipient (example_sms_message 2 ''12''))
      (defaultCountry example_config) = Inl (Error ''Invalid phone number'')"
  by (simp add: example_sms_env_def example_sms_message_def)

lemma example_email_invalid:
  "\<not> isEmail example_email_env (recipient (example_message 2 ''nobody''))"
  by (simp add: example_email_env_def example_message_def)

theorem C5_witness:
  "normalisePhoneNumber example_sms_env (sms_recipient (example_sms_message 2 ''12''))
      (defaultCountry example_config) = Inl (Error ''Invalid phone number'') \<and>
   \<not> isEmail example_email_env (recipient (example_message 2 ''nobody'')) \<and>
   accepts example_world \<and>
   sms_sent (snd (sms_sendMessage example_config example_sms_env example_sms
                     (example_sms_message 2 ''12'') example_world)) = [] \<and>
   map (\<lambda>r. (op_id r, op_status r, op_error_code r))
       (sms_ops (db (snd (sms_sendMessage example_config example_sms_env example_sms
                     (example_sms_message 2 ''12'') example_world))))
     = [(1, UNSENT, None), (2, ERROR, Some ''Recipient is incorrectly formatted'')] \<and>
   mail_sent (snd (email_sendMessage example_config example_email_env example_email
                     (example_message 2 ''nobody'') example_world)) = [] \<and>
   map (\<lambda>r. (op_id r, op_status r, op_error_code r))
       (email_ops (db (snd (email_sendMessage example_config example_email_env example_email
                     (example_message 2 ''nobody'') example_world))))
     = [(1, UNSENT, None), (2, ERROR, Some ''Recipient is incorrectly formatted'')]"
  using C5_recipient_checked_before_send
          [where cfg=example_config and senv=example_sms_env and sms=example_sms
             and sm="example_sms_message 2 ''12''" and w=example_world
             and eenv=example_email_env and email=example_email
             and em="example_message 2 ''nobody''" and err="Error ''Invalid phone number''"]
        example_accepts example_sms_invalid example_email_invalid
  by (simp add: example_world_def example_row_def example_sms_message_def example_message_def)

text \<open>
  C5, as stated, fails: a recipient that is no email address, on a connection that
  rejects the UPDATE of the failure handler. No mail is handed over, and the row is not
  set to ERROR: it stays as it was, and \<^verbatim>\<open>sendMessage\<close> rejects.
\<close>

theorem C5_counterexample:
  "\<not> isEmail example_email_env (recipient (example_message 2 ''nobody'')) \<and>
   fst (email_sendMessage example_config example_email_env example_email
          (example_message 2 ''nobody'')
          (example_world\<lparr>faults := [Some (Error ''Connection terminated unexpectedly'')]\<rparr>))
     = Inl (Error ''Connection terminated unexpectedly'') \<and>
   map (\<lambda>r. (op_id r, op_status r, op_error_code r))
       (email_ops (db (snd (email_sendMessage example_config example_email_env example_email
          (example_message 2 ''nobody'')
          (example_world\<lparr>faults := [Some (Error ''Connection terminated unexpectedly'')]\<rparr>)))))
     = [(1, UNSENT, None), (2, UNSENT, None)]"
  by (simp add: email_sendMessage_def email_transport_def email_render_def query_def
        example_email_env_def example_message_def example_world_def example_row_def)

section \<open>Failures of one message\<close>

text \<open>
  C3, as stated, fails: a recipient that does not normalise, on a connection that rejects
  the UPDATE of the failure handler. The handler's own rejection is caught by nothing,
  and \<^verbatim>\<open>sendMessage\<close> rejects.
\<close>

theorem C3_counterexample:
  "fst (sms_sendMessage example_config example_sms_env example_sms (example_sms_message 2 ''12'')
          (example_world\<lparr>faults := [Some (Error ''Connection terminated unexpectedly'')]\<rparr>))
     = Inl (Error ''Connection terminated unexpectedly'')"
  by (simp add: sms_sendMessage_def sms_normalise_def example_sms_env_def
        example_sms_message_def example_config_def query_def)

text \<open>
  C3, amended. \<^verbatim>\<open>sendMessage\<close> of either worker rejects only with an error of the
  connection itself. When the recipient check, the rendering or the transport fails for
  a message with error \<open>e\<close>: if the connection carries out the handler's UPDATE,
  \<^verbatim>\<open>sendMessage\<close> resolves and the database differs from the one before only in the
  rows of that id, which are ERROR with the first 255 characters of \<open>e\<close>'s message as
  error code; if the connection rejects that UPDATE, \<^verbatim>\<open>sendMessage\<close> rejects and the
  database is unchanged.
\<close>

theorem C3_failure_recorded_on_that_row:
  fixes cfg :: config and senv :: "'o sms_env" and eenv :: "'o email_env" and w :: "'o world"
    and sms sm email em
  defines "rs \<equiv> sms_sendMessage cfg senv sms sm w"
      and "re \<equiv> email_sendMessage cfg eenv email em w"
  shows "(fst rs = Inl rejection \<longrightarrow> Some rejection \<in> set (faults w)) \<and>
         (fst re = Inl rejection \<longrightarrow> Some rejection \<in> set (faults w)) \<and>
         (sms_failure cfg senv sms sm w = Some e \<longrightarrow>
            (accepts w \<longrightarrow>
               fst rs = Inr () \<and>
               db (snd rs) = (db w)\<lparr>sms_ops :=
                 map (\<lambda>r. if op_id r = sms_id sm
                           then r\<lparr>op_status := ERROR, op_delivered_at := Some (clock w),
                                  op_error_code := Some (take 255 (message e)),
                                  op_updated_at := Some (clock w)\<rparr>
                           else r)
                     (sms_ops (db w))\<rparr>) \<and>
            (\<not> accepts w \<longrightarrow> (\<exists>e'. fst rs = Inl e') \<and> db (snd rs) = db w)) \<and>
         (email_failure cfg eenv email em w = Some e \<longrightarrow>
            (accepts w \<longrightarrow>
               fst re = Inr () \<and>
               db (snd re) = (db w)\<lparr>email_ops :=
                 map (\<lambda>r. if op_id r = msg_id em
                           then r\<lparr>op_status := ERROR, op_delivered_at := Some (clock w),
                                  op_error_code := Some (take 255 (message e)),
                                  op_updated_at := Some (clock w)\<rparr>
                           else r)
                     (email_ops (db w))\<rparr>) \<and>
            (\<not> accepts w \<longrightarrow> (\<exists>e'. fst re = Inl e') \<and> db (snd re) = db w))"
  unfolding rs_def re_def
  using sms_rejection_is_fault[of cfg senv sms sm w rejection]
        email_rejection_is_fault[of cfg eenv email em w rejection]
        sms_failure_accepted[of cfg senv sms sm w e]
        sms_failure_rejected[of cfg senv sms sm w e]
        email_failure_accepted[of cfg eenv email em w e]
        email_failure_rejected[of cfg eenv email em w e]
  by (simp add: row_error_def)

lemma example_sms_failure:
  "sms_failure example_config example_sms_env example_sms (example_sms_message 2 ''12'') w
     = Some (Error ''Recipient is incorrectly formatted'')"
  by (rule sms_failure_invalid[OF example_sms_invalid])

lemma example_email_failure:
  "email_failure example_config example_email_env example_email (example_message 2 ''nobody'') w
     = Some (Error ''Recipient is incorrectly formatted'')"
  by (rule email_failure_invalid[OF example_email_invalid])

theorem C3_witness:
  "sms_failure example_config example_sms_env example_sms (example_sms_message 2 ''12'') example_world
     = Some (Error ''Recipient is incorrectly formatted'') \<and>
   email_failure example_config example_email_env example_email (example_message 2 ''nobody'')
       example_world = Some (Error ''Recipient is incorrectly formatted'') \<and>
   accepts example_world \<and>
   fst (sms_sendMessage example_config example_sms_env example_sms
          (example_sms_message 2 ''12'') example_world) = Inr () \<and>
   map (\<lambda>r. (op_id r, op_status r, op_error_code r))
       (sms_ops (db (snd (sms_sendMessage example_config example_sms_env example_sms
                     (example_sms_message 2 ''12'') example_world))))
     = [(1, UNSENT, None), (2, ERROR, Some ''Recipient is incorrectly formatted'')] \<and>
   fst (email_sendMessage example_config example_email_env example_email
          (example_message 2 ''nobody'') example_world) = Inr () \<and>
   map (\<lambda>r. (op_id r, op_status r, op_error_code r))
       (email_ops (db (snd (email_sendMessage example_config example_email_env example_email
                     (example_message 2 ''nobody'') example_world))))
     = [(1, UNSENT, None), (2, ERROR, Some ''Recipient is incorrectly formatted'')]"
  using C3_failure_recorded_on_that_row
          [where cfg=example_config and senv=example_sms_env and sms=example_sms
             and sm="example_sms_message 2 ''12''" and w=example_world
             and eenv=example_email_env and email=example_email
             and em="example_message 2 ''nobody''"
             and e="Error ''Recipient is incorrectly formatted''"]
        example_accepts example_sms_failure[of example_world] example_email_failure[of example_world]
  by (simp add: example_world_def example_row_def example_sms_message_def example_message_def)

section \<open>A message that went out\<close>

lemma example_email_transport:
  "fst (email_transport example_config example_email_env example_email
          (example_message 1 ''a@b.sg'') example_world) = Inr (Some ''provider-id-1'')"
  by (simp add: email_transport_def email_render_def generateUnsubLink_def calculateHash_def
        example_email_env_def example_message_def Let_def)

text \<open>
  C4, as stated, fails for email: the mail service accepts the mail and answers with an
  id, the row becomes SENDING, and its message id is still null.
\<close>

theorem C4_counterexample:
  "fst (email_transport example_config example_email_env example_email
          (example_message 1 ''a@b.sg'') example_world) = Inr (Some ''provider-id-1'') \<and>
   fst (email_sendMessage example_config example_email_env example_email
          (example_message 1 ''a@b.sg'') example_world) = Inr () \<and>
   map (\<lambda>r. (op_id r, op_status r, op_message_id r))
       (email_ops (db (snd (email_sendMessage example_config example_email_env example_email
                     (example_message 1 ''a@b.sg'') example_world))))
     = [(1, SENDING, None), (2, UNSENT, None)]"
  using email_success_accepted[OF example_email_transport example_accepts] example_email_transport
  by (simp add: example_world_def example_row_def example_message_def row_sending_email_def)

text \<open>
  C4, amended. When the send succeeds and the connection carries out the UPDATE,
  \<^verbatim>\<open>sendMessage\<close> resolves and sets the rows of that id to SENDING, with the reading of
  the database clock as \<^verbatim>\<open>delivered_at\<close> and \<^verbatim>\<open>updated_at\<close>, after which the clock
  has moved on. The SMS worker also stores what the gateway client resolved with as the
  message id, a text or null (a client that resolves with \<^verbatim>\<open>undefined\<close> leaves no
  UPDATE to carry out). The email worker stores no message id: the column is left as it
  was, and the mail service was given the row's own id as the message id of the mail.
\<close>

theorem C4_success_recorded_as_sending:
  fixes cfg :: config and senv :: "'o sms_env" and eenv :: "'o email_env" and w :: "'o world"
    and sms sm email em
  defines "rs \<equiv> sms_sendMessage cfg senv sms sm w"
      and "re \<equiv> email_sendMessage cfg eenv email em w"
  shows "(normalisePhoneNumber senv (sms_recipient sm) (defaultCountry cfg) = Inr n \<and>
          smsClient sms = Some c \<and>
          template_sms senv (sms_body sm) (sms_params sm) = Inr rendered \<and>
          client_send senv \<lparr>send_via = c, send_id = sms_id sm, send_recipient = n,
                            send_message = rendered, send_campaignId = sms_campaignId sm\<rparr>
            = Inr messageId \<and>
          messageId \<noteq> Undefined \<and>
          accepts w \<longrightarrow>
            fst rs = Inr () \<and>
            sms_ops (db (snd rs)) =
              map (\<lambda>r. if op_id r = sms_id sm
                        then r\<lparr>op_status := SENDING, op_delivered_at := Some (clock w),
                               op_message_id := sql_value messageId, op_updated_at := Some (clock w)\<rparr>
                        else r)
                  (sms_ops (db w)) \<and>
            clock (snd rs) = Suc (clock w)) \<and>
         (email_render cfg eenv em = Inr letter \<and>
          sendMail eenv (mailService email) letter = Inr reply \<and>
          accepts w \<longrightarrow>
            fst re = Inr () \<and>
            email_ops (db (snd re)) =
              map (\<lambda>r. if op_id r = msg_id em
                        then r\<lparr>op_status := SENDING, op_delivered_at := Some (clock w),
                               op_updated_at := Some (clock w)\<rparr>
                        else r)
                  (email_ops (db w)) \<and>
            map op_message_id (email_ops (db (snd re))) = map op_message_id (email_ops (db w)) \<and>
            mail_messageId letter = toString_nat (msg_id em) \<and>
            clock (snd re) = Suc (clock w))"
proof -
  have a: "fst rs = Inr () \<and>
            sms_ops (db (snd rs)) =
              map (\<lambda>r. if op_id r = sms_id sm
                        then r\<lparr>op_status := SENDING, op_delivered_at := Some (clock w),
                               op_message_id := sql_value messageId, op_updated_at := Some (clock w)\<rparr>
                        else r)
                  (sms_ops (db w)) \<and>
            clock (snd rs) = Suc (clock w)"
    if h: "normalisePhoneNumber senv (sms_recipient sm) (defaultCountry cfg) = Inr n"
          "smsClient sms = Some c"
          "template_sms senv (sms_body sm) (sms_params sm) = Inr rendered"
          "client_send senv \<lparr>send_via = c, send_id = sms_id sm, send_recipient = n,
                            send_message = rendered, send_campaignId = sms_campaignId sm\<rparr>
            = Inr messageId"
          "messageId \<noteq> Undefined"
          "accepts w"
  proof -
    from h(1) have norm: "sms_normalise cfg senv sm = Inr n" by (simp add: sms_normalise_def)
    from h(2-4) have tr: "fst (sms_transport senv sms sm n w) = Inr messageId"
      by (simp add: sms_transport_def)
    from sms_success_accepted[OF norm tr h(5) h(6)] show ?thesis
      by (simp add: rs_def row_sending_sms_def)
  qed
  have b: "fst re = Inr () \<and>
            email_ops (db (snd re)) =
              map (\<lambda>r. if op_id r = msg_id em
                        then r\<lparr>op_status := SENDING, op_delivered_at := Some (clock w),
                               op_updated_at := Some (clock w)\<rparr>
                        else r)
                  (email_ops (db w)) \<and>
            map op_message_id (email_ops (db (snd re))) = map op_message_id (email_ops (db w)) \<and>
            mail_messageId letter = toString_nat (msg_id em) \<and>
            clock (snd re) = Suc (clock w)"
    if h: "email_render cfg eenv em = Inr letter"
          "sendMail eenv (mailService email) letter = Inr reply"
          "accepts w"
  proof -
    from h(1,2) have tr: "fst (email_transport cfg eenv email em w) = Inr reply"
      by (simp add: email_transport_def)
    from h(1) have mid: "mail_messageId letter = toString_nat (msg_id em)"
      by (auto simp: email_render_def Let_def split: if_splits sum.splits)
    from email_success_accepted[OF tr h(3)] mid show ?thesis
      by (simp add: re_def row_sending_email_def comp_def)
  qed
  from a b show ?thesis by blast
qed

lemma example_email_render:
  "email_render example_config example_email_env (example_message 1 ''a@b.sg'') = Inr example_letter"
  by (simp add: email_render_def generateUnsubLink_def calculateHash_def example_letter_def
        example_email_env_def example_message_def example_config_def Let_def)

theorem C4_witness:
  "normalisePhoneNumber example_sms_env (sms_recipient (example_sms_message 1 ''98765432''))
      (defaultCountry example_config) = Inr ''+6598765432'' \<and>
   smsClient example_sms = Some (TwilioClient example_credentials) \<and>
   client_send example_sms_env
      \<lparr>send_via = TwilioClient example_credentials, send_id = 1,
       send_recipient = ''+6598765432'', send_message = ''Hello world'',
       send_campaignId = Some 7\<rparr> = Inr (Value ''SM1'') \<and>
   email_render example_config example_email_env (example_message 1 ''a@b.sg'') = Inr example_letter \<and>
   sendMail example_email_env (mailService example_email) example_letter = Inr (Some ''provider-id-1'') \<and>
   accepts example_world \<and>
   fst (sms_sendMessage example_config example_sms_env example_sms
          (example_sms_message 1 ''98765432'') example_world) = Inr () \<and>
   map (\<lambda>r. (op_id r, op_status r, op_message_id r, op_delivered_at r, op_updated_at r))
       (sms_ops (db (snd (sms_sendMessage example_config example_sms_env example_sms
                     (example_sms_message 1 ''98765432'') example_world))))
     = [(1, SENDING, Some ''SM1'', Some 100, Some 100), (2, UNSENT, None, None, None)] \<and>
   fst (email_sendMessage example_config example_email_env example_email
          (example_message 1 ''a@b.sg'') example_world) = Inr () \<and>
   map (\<lambda>r. (op_id r, op_status r, op_message_id r, op_delivered_at r, op_updated_at r))
       (email_ops (db (snd (email_sendMessage example_config example_email_env example_email
                     (example_message 1 ''a@b.sg'') example_world))))
     = [(1, SENDING, None, Some 100, Some 100), (2, UNSENT, None, None, None)]"
proof -
  have n: "normalisePhoneNumber example_sms_env (sms_recipient (example_sms_message 1 ''98765432''))
      (defaultCountry example_config) = Inr ''+6598765432''"
    by (simp add: example_sms_env_def example_sms_message_def)
  have c: "smsClient example_sms = Some (TwilioClient example_credentials)"
    by (simp add: example_sms_def)
  have t: "template_sms example_sms_env (sms_body (example_sms_message 1 ''98765432''))
             (sms_params (example_sms_message 1 ''98765432'')) = Inr ''Hello world''"
    by (simp add: example_sms_env_def example_sms_message_def)
  have g: "client_send example_sms_env
      \<lparr>send_via = TwilioClient example_credentials,
       send_id = sms_id (example_sms_message 1 ''98765432''),
       send_recipient = ''+6598765432'', send_message = ''Hello world'',
       send_campaignId = sms_campaignId (example_sms_message 1 ''98765432'')\<rparr> = Inr (Value ''SM1'')"
    by (simp add: example_sms_env_def)
  have m: "sendMail example_email_env (mailService example_email) example_letter
             = Inr (Some ''provider-id-1'')"
    by (simp add: example_email_env_def)
  from C4_success_recorded_as_sending
          [where cfg=example_config and senv=example_sms_env and sms=example_sms
             and sm="example_sms_message 1 ''98765432''" and w=example_world
             and eenv=example_email_env and email=example_email
             and em="example_message 1 ''a@b.sg''" and n="''+6598765432''"
             and c="TwilioClient example_credentials" and rendered="''Hello world''"
             and messageId="Value ''SM1''" and letter=example_letter
             and reply="Some ''provider-id-1''"]
       n c t g m example_email_render example_accepts
  show ?thesis
    by (simp add: example_world_def example_row_def example_sms_message_def example_message_def
          example_sms_env_def sql_value_def)
qed

section \<open>Fetching a batch\<close>

lemma sms_contactPref_fails:
  assumes "result \<noteq> []"
    and "(\<exists>e. fst (query (select_owner_email (sms_campaignId (hd result))) w1) = Inl e) \<or>
         fst (query (select_owner_email (sms_campaignId (hd result))) w1) = Inr [] \<or>
         (\<exists>userEmail others e.
            fst (query (select_owner_email (sms_campaignId (hd result))) w1) = Inr (userEmail # others) \<and>
            getMessagesWithContactPrefLinks env result (sms_campaignId (hd result)) userEmail = Inl e)"
  shows "\<exists>err. fst (sms_contactPref env result w1) = Inl err"
proof -
  from assms(1) obtain first rest where r: "result = first # rest" by (cases result) auto
  show ?thesis
  proof (cases "sms_campaignId first")
    case None
    with r show ?thesis
      by (simp add: sms_contactPref_def bind_replacement_def js_of_option_def)
  next
    case (Some cid)
    obtain q w2 where q: "query (select_owner_email (Some cid)) w1 = (q, w2)"
      by (cases "query (select_owner_email (Some cid)) w1")
    from assms(2) r q Some show ?thesis
      by (auto simp: sms_contactPref_def bind_replacement_def js_of_option_def sql_value_def
               split: sum.splits list.splits)
  qed
qed

lemma email_contactPref_fails:
  assumes "result \<noteq> []"
    and "(\<exists>e. fst (query (select_owner_email (msg_campaignId (row_message (hd result)))) w1) = Inl e) \<or>
         fst (query (select_owner_email (msg_campaignId (row_message (hd result)))) w1) = Inr [] \<or>
         (\<exists>userEmail others e.
            fst (query (select_owner_email (msg_campaignId (row_message (hd result)))) w1)
              = Inr (userEmail # others) \<and>
            getContactPrefLinksForEmail env result (msg_campaignId (row_message (hd result))) userEmail
              = Inl e)"
  shows "\<exists>err. fst (email_contactPref env result w1) = Inl err"
proof -
  from assms(1) obtain first rest where r: "result = first # rest" by (cases result) auto
  show ?thesis
  proof (cases "msg_campaignId (row_message first)")
    case None
    with r show ?thesis
      by (simp add: email_contactPref_def bind_replacement_def js_of_option_def)
  next
    case (Some cid)
    obtain q w2 where q: "query (select_owner_email (Some cid)) w1 = (q, w2)"
      by (cases "query (select_owner_email (Some cid)) w1")
    from assms(2) r q Some show ?thesis
      by (auto simp: email_contactPref_def bind_replacement_def js_of_option_def sql_value_def
               split: sum.splits list.splits)
  qed
qed

lemma sms_getMessages_degrades:
  assumes "query (select_get_messages_to_send_sms env jobId rate) w = (Inr result, w1)"
    and "fst (sms_contactPref env result w1) = Inl err"
  shows "fst (sms_getMessages cfg env this jobId rate w) = Inr result"
  using assms by (auto simp: sms_getMessages_def split: prod.splits sum.splits)

lemma email_getMessages_degrades:
  assumes "query (select_get_messages_to_send_email env jobId rate) w = (Inr result, w1)"
    and "fst (email_contactPref env result w1) = Inl err"
  shows "fst (email_getMessages cfg env this jobId rate w) =
           Inr (map (with_showMasthead (showMastheadDomain cfg)) result)"
  using assms by (auto simp: email_getMessages_def split: prod.splits sum.splits)

lemma sms_getMessages_resolves:
  assumes "query (select_get_messages_to_send_sms env jobId rate) w = (Inr result, w1)"
  shows "\<exists>msgs. fst (sms_getMessages cfg env this jobId rate w) = Inr msgs"
  using assms by (auto simp: sms_getMessages_def split: prod.splits sum.splits)

lemma email_getMessages_resolves:
  assumes "query (select_get_messages_to_send_email env jobId rate) w = (Inr result, w1)"
  shows "\<exists>msgs. fst (email_getMessages cfg env this jobId rate w) = Inr msgs"
  using assms by (auto simp: email_getMessages_def split: prod.splits sum.splits)

lemma with_showMasthead_unenriched:
  "with_showMasthead d row = (row_message row)\<lparr>showMasthead := Some (endsWith (senderEmail (row_message row)) d)\<rparr>"
  by (simp add: with_showMasthead_def)

text \<open>
  C6. Once the batch is fetched, \<^verbatim>\<open>getMessages\<close> of either worker resolves. With the
  contact-preference feature enabled and a non-empty batch, when the owner lookup is
  rejected or finds no email, or the contact-preference helper fails, the SMS worker
  resolves with exactly the fetched messages and the email worker with the message of
  every fetched row, in order, changed only by its masthead flag: the whole batch, with
  no preference link added.
\<close>

theorem C6_enrichment_failure_keeps_batch:
  fixes cfg :: config and senv :: "'o sms_env" and eenv :: "'o email_env" and w :: "'o world"
  shows "(query (select_get_messages_to_send_sms senv jobId rate) w = (Inr sresult, sworld) \<longrightarrow>
            (\<exists>msgs. fst (sms_getMessages cfg senv sms jobId rate w) = Inr msgs) \<and>
            (phonebookContactPrefEnabled cfg \<and> sresult \<noteq> [] \<and>
             ((\<exists>e. fst (query (select_owner_email (sms_campaignId (hd sresult))) sworld) = Inl e) \<or>
              fst (query (select_owner_email (sms_campaignId (hd sresult))) sworld) = Inr [] \<or>
              (\<exists>userEmail others e.
                 fst (query (select_owner_email (sms_campaignId (hd sresult))) sworld)
                   = Inr (userEmail # others) \<and>
                 getMessagesWithContactPrefLinks senv sresult (sms_campaignId (hd sresult)) userEmail
                   = Inl e)) \<longrightarrow>
             fst (sms_getMessages cfg senv sms jobId rate w) = Inr sresult)) \<and>
         (query (select_get_messages_to_send_email eenv jobId rate) w = (Inr eresult, eworld) \<longrightarrow>
            (\<exists>msgs. fst (email_getMessages cfg eenv email jobId rate w) = Inr msgs) \<and>
            (phonebookContactPrefEnabled cfg \<and> eresult \<noteq> [] \<and>
             ((\<exists>e. fst (query (select_owner_email (msg_campaignId (row_message (hd eresult)))) eworld)
                     = Inl e) \<or>
              fst (query (select_owner_email (msg_campaignId (row_message (hd eresult)))) eworld) = Inr [] \<or>
              (\<exists>userEmail others e.
                 fst (query (select_owner_email (msg_campaignId (row_message (hd eresult)))) eworld)
                   = Inr (userEmail # others) \<and>
                 getContactPrefLinksForEmail eenv eresult
                    (msg_campaignId (row_message (hd eresult))) userEmail = Inl e)) \<longrightarrow>
             fst (email_getMessages cfg eenv email jobId rate w) =
               Inr (map (\<lambda>row. (row_message row)\<lparr>showMasthead :=
                           Some (endsWith (senderEmail (row_message row)) (showMastheadDomain cfg))\<rparr>)
                        eresult)))"
proof -
  have s: "fst (sms_getMessages cfg senv sms jobId rate w) = Inr sresult"
    if "query (select_get_messages_to_send_sms senv jobId rate) w = (Inr sresult, sworld)"
       "sresult \<noteq> []"
       "(\<exists>e. fst (query (select_owner_email (sms_campaignId (hd sresult))) sworld) = Inl e) \<or>
              fst (query (select_owner_email (sms_campaignId (hd sresult))) sworld) = Inr [] \<or>
              (\<exists>userEmail others e.
                 fst (query (select_owner_email (sms_campaignId (hd sresult))) sworld)
                   = Inr (userEmail # others) \<and>
                 getMessagesWithContactPrefLinks senv sresult (sms_campaignId (hd sresult)) userEmail
                   = Inl e)"
    using sms_contactPref_fails[OF that(2,3)] sms_getMessages_degrades[OF that(1)] by blast
  have e: "fst (email_getMessages cfg eenv email jobId rate w) =
               Inr (map (\<lambda>row. (row_message row)\<lparr>showMasthead :=
                           Some (endsWith (senderEmail (row_message row)) (showMastheadDomain cfg))\<rparr>)
                        eresult)"
    if "query (select_get_messages_to_send_email eenv jobId rate) w = (Inr eresult, eworld)"
       "eresult \<noteq> []"
       "(\<exists>e. fst (query (select_owner_email (msg_campaignId (row_message (hd eresult)))) eworld)
                     = Inl e) \<or>
              fst (query (select_owner_email (msg_campaignId (row_message (hd eresult)))) eworld) = Inr [] \<or>
              (\<exists>userEmail others e.
                 fst (query (select_owner_email (msg_campaignId (row_message (hd eresult)))) eworld)
                   = Inr (userEmail # others) \<and>
                 getContactPrefLinksForEmail eenv eresult
                    (msg_campaignId (row_message (hd eresult))) userEmail = Inl e)"
  proof -
    from email_contactPref_fails[OF that(2,3)] email_getMessages_degrades[OF that(1)]
    have "fst (email_getMessages cfg eenv email jobId rate w) =
           Inr (map (with_showMasthead (showMastheadDomain cfg)) eresult)" by blast
    then show ?thesis by (simp add: with_showMasthead_unenriched[abs_def])
  qed
  from s e sms_getMessages_resolves[of senv jobId rate w sresult sworld cfg sms]
       email_getMessages_resolves[of eenv jobId rate w eresult eworld cfg email]
  show ?thesis by blast
qed

lemma example_fetch_sms:
  "query (select_get_messages_to_send_sms example_sms_env 1 2) example_world
     = (Inr [example_sms_message 1 ''98765432'', example_sms_message 2 ''12''], example_world)"
  by (simp add: query_def select_get_messages_to_send_sms_def example_sms_env_def example_world_def)

lemma example_fetch_email:
  "query (select_get_messages_to_send_email example_email_env_down 1 2) example_world
     = (Inr [\<lparr>row_message = example_message 1 ''a@b.sg''\<rparr>,
             \<lparr>row_message = example_message 2 ''nobody''\<rparr>], example_world)"
  by (simp add: query_def select_get_messages_to_send_email_def example_email_env_down_def
        example_email_env_def example_world_def)

lemma example_owner:
  "fst (query (select_owner_email (Some 7)) example_world) = Inr [''owner@agency.gov.sg'']"
  by (simp add: query_def select_owner_email_def example_world_def)

theorem C6_witness:
  "query (select_get_messages_to_send_sms example_sms_env 1 2) example_world
     = (Inr [example_sms_message 1 ''98765432'', example_sms_message 2 ''12''], example_world) \<and>
   query (select_get_messages_to_send_email example_email_env_down 1 2) example_world
     = (Inr [\<lparr>row_message = example_message 1 ''a@b.sg''\<rparr>,
             \<lparr>row_message = example_message 2 ''nobody''\<rparr>], example_world) \<and>
   phonebookContactPrefEnabled example_config \<and>
   fst (query (select_owner_email (Some 7)) example_world) = Inr [''owner@agency.gov.sg''] \<and>
   getMessagesWithContactPrefLinks example_sms_env
      [example_sms_message 1 ''98765432'', example_sms_message 2 ''12''] (Some 7)
      ''owner@agency.gov.sg'' = Inl (Error ''phonebook is down'') \<and>
   getContactPrefLinksForEmail example_email_env_down
      [\<lparr>row_message = example_message 1 ''a@b.sg''\<rparr>, \<lparr>row_message = example_message 2 ''nobody''\<rparr>]
      (Some 7) ''owner@agency.gov.sg'' = Inl (Error ''phonebook is down'') \<and>
   fst (sms_getMessages example_config example_sms_env example_sms 1 2 example_world)
     = Inr [example_sms_message 1 ''98765432'', example_sms_message 2 ''12''] \<and>
   fst (email_getMessages example_config example_email_env_down example_email 1 2 example_world)
     = Inr [(example_message 1 ''a@b.sg'')\<lparr>showMasthead := Some True\<rparr>,
            (example_message 2 ''nobody'')\<lparr>showMasthead := Some True\<rparr>]"
proof -
  have en: "phonebookContactPrefEnabled example_config" by (simp add: example_config_def)
  have hs: "getMessagesWithContactPrefLinks example_sms_env
      [example_sms_message 1 ''98765432'', example_sms_message 2 ''12''] (Some 7)
      ''owner@agency.gov.sg'' = Inl (Error ''phonebook is down'')"
    by (simp add: example_sms_env_def)
  have he: "getContactPrefLinksForEmail example_email_env_down
      [\<lparr>row_message = example_message 1 ''a@b.sg''\<rparr>, \<lparr>row_message = example_message 2 ''nobody''\<rparr>]
      (Some 7) ''owner@agency.gov.sg'' = Inl (Error ''phonebook is down'')"
    by (simp add: example_email_env_down_def)
  have cs: "sms_campaignId (example_sms_message 1 ''98765432'') = Some 7"
    by (simp add: example_sms_message_def)
  have ce: "msg_campaignId (example_message 1 ''a@b.sg'') = Some 7"
    by (simp add: example_message_def)
  have ends: "endsWith ''info@agency.gov.sg'' ''.gov.sg''"
    by (simp add: endsWith_def)
  from C6_enrichment_failure_keeps_batch
         [where cfg=example_config and senv=example_sms_env and sms=example_sms
            and jobId=1 and rate=2 and w=example_world and sworld=example_world
            and sresult="[example_sms_message 1 ''98765432'', example_sms_message 2 ''12'']"
            and eenv=example_email_env_down and email=example_email and eworld=example_world
            and eresult="[\<lparr>row_message = example_message 1 ''a@b.sg''\<rparr>,
                          \<lparr>row_message = example_message 2 ''nobody''\<rparr>]"]
       example_fetch_sms example_fetch_email example_owner en hs he cs ce ends
  show ?thesis
    by (simp add: example_message_def example_config_def)
qed










end
